theory Spec2Isabelle
  imports Main "HOL-Library.Word"
begin

unbundle bit_operations_syntax

section \<open>Errors\<close>

text \<open>
  The program (\<^verbatim>\<open>main.go\<close>) distinguishes errors with \<^verbatim>\<open>errors.Is\<close> against the
  sentinels \<^verbatim>\<open>fs.ErrPermission\<close> and \<^verbatim>\<open>fs.ErrNotExist\<close>, and wraps them with
  \<^verbatim>\<open>fmt.Errorf("...: %w", err)\<close>. Errors coming from the operating system are
  \<^verbatim>\<open>*fs.PathError\<close> values around a \<^verbatim>\<open>syscall.Errno\<close>.
\<close>

datatype errno = EACCES | EPERM | ENOENT | EOTHER string

datatype sentinel = ErrPermission | ErrNotExist

datatype error =
    PathError string string errno
  | Wrapped string error
  | SkipDir
  | SkipAll
  | ErrWriteTooLong
  | ErrWriteAfterClose
  | ErrMissed int
  | ErrSink
  | ErrHeader string
  | NilDeref
  | EOF
  | ErrClosedPipe
  | External string

text \<open>\<^verbatim>\<open>syscall.Errno.Is\<close>: which errno values answer to which sentinel.\<close>

fun errno_Is :: "errno \<Rightarrow> sentinel \<Rightarrow> bool" where
  "errno_Is e ErrPermission = (e = EACCES \<or> e = EPERM)"
| "errno_Is e ErrNotExist = (e = ENOENT)"

text \<open>\<^verbatim>\<open>errors.Is(err, target)\<close> for a sentinel target: follow the chain of wrapped errors.\<close>

fun errors_Is :: "error \<Rightarrow> sentinel \<Rightarrow> bool" where
  "errors_Is (PathError opn pth en) t = errno_Is en t"
| "errors_Is (Wrapped msg e) t = errors_Is e t"
| "errors_Is e t = False"

text \<open>\<^verbatim>\<open>err.Error()\<close>.\<close>

fun errno_Error :: "errno \<Rightarrow> string" where
  "errno_Error EACCES = ''permission denied''"
| "errno_Error EPERM = ''operation not permitted''"
| "errno_Error ENOENT = ''no such file or directory''"
| "errno_Error (EOTHER m) = m"

fun Error :: "error \<Rightarrow> string" where
  "Error (PathError opn pth en) = opn @ '' '' @ pth @ '': '' @ errno_Error en"
| "Error (Wrapped msg e) = msg @ '': '' @ Error e"
| "Error SkipDir = ''skip this directory''"
| "Error SkipAll = ''skip everything and stop the walk''"
| "Error ErrWriteTooLong = ''archive/tar: write too long''"
| "Error ErrWriteAfterClose = ''archive/tar: write after close''"
| "Error (ErrMissed n) = ''archive/tar: missed writing bytes''"
| "Error ErrSink = ''write error''"
| "Error (ErrHeader m) = m"
| "Error NilDeref = ''invalid memory address or nil pointer dereference''"
| "Error EOF = ''EOF''"
| "Error ErrClosedPipe = ''io: read/write on closed pipe''"
| "Error (External m) = m"

section \<open>File modes (\<^verbatim>\<open>io/fs.FileMode\<close>)\<close>

type_synonym FileMode = "32 word"
type_synonym byte = "8 word"

definition ModeDir :: FileMode where "ModeDir = 2 ^ 31"
definition ModeSymlink :: FileMode where "ModeSymlink = 2 ^ 27"
definition ModeDevice :: FileMode where "ModeDevice = 2 ^ 26"
definition ModeNamedPipe :: FileMode where "ModeNamedPipe = 2 ^ 25"
definition ModeSocket :: FileMode where "ModeSocket = 2 ^ 24"
definition ModeSetuid :: FileMode where "ModeSetuid = 2 ^ 23"
definition ModeSetgid :: FileMode where "ModeSetgid = 2 ^ 22"
definition ModeCharDevice :: FileMode where "ModeCharDevice = 2 ^ 21"
definition ModeSticky :: FileMode where "ModeSticky = 2 ^ 20"
definition ModeIrregular :: FileMode where "ModeIrregular = 2 ^ 19"

definition ModeType :: FileMode where
  "ModeType = ModeDir OR ModeSymlink OR ModeNamedPipe OR ModeSocket OR ModeDevice
              OR ModeCharDevice OR ModeIrregular"

definition ModePerm :: FileMode where "ModePerm = 511"

definition IsRegular :: "FileMode \<Rightarrow> bool" where
  "IsRegular m \<longleftrightarrow> m AND ModeType = 0"

definition IsDir :: "FileMode \<Rightarrow> bool" where
  "IsDir m \<longleftrightarrow> m AND ModeDir \<noteq> 0"

record FileInfo =
  fi_name :: string
  fi_size :: int
  fi_mode :: FileMode
  fi_modtime :: int

section \<open>The file system seen by the walk\<close>

text \<open>
  A directory entry as \<^verbatim>\<open>fs.WalkDir\<close> hands it to the callback, together with what the
  operating system answers for that node when the callback asks: \<^verbatim>\<open>d.Info()\<close>,
  \<^verbatim>\<open>os.Readlink\<close>, \<^verbatim>\<open>os.Open\<close> followed by reading the file (the bytes read and the
  read error, if any), and the error of reading the directory, if any.
\<close>

record DirEntry =
  de_name :: string
  de_isdir :: bool
  de_info :: "errno + FileInfo"
  de_readlink :: "errno + string"
  de_open :: "errno + (byte list \<times> errno option)"
  de_readdir :: "errno option"

datatype node = Node DirEntry "node list"

text \<open>The root: either \<^verbatim>\<open>fs.Stat(fsys, ".")\<close> fails, or there is a tree.\<close>

datatype fsys = StatFails errno | Tree node

section \<open>Strings and paths\<close>

text \<open>\<^verbatim>\<open>strings.HasPrefix\<close>.\<close>

definition strings_HasPrefix :: "string \<Rightarrow> string \<Rightarrow> bool" where
  "strings_HasPrefix s pre \<longleftrightarrow> length s \<ge> length pre \<and> take (length pre) s = pre"

text \<open>
  \<^verbatim>\<open>path.Join\<close> on the arguments the program gives it: a cleaned directory path and
  a relative name (the walk starts at \<^verbatim>\<open>"."\<close>, the dump at \<^verbatim>\<open>"/"\<close>).
\<close>

definition path_Join :: "string \<Rightarrow> string \<Rightarrow> string" where
  "path_Join a b =
     (if a = ''.'' \<or> a = '''' then b
      else if b = ''.'' \<or> b = '''' then a
      else if a = ''/'' then ''/'' @ b
      else a @ ''/'' @ b)"

section \<open>The tar writer (\<^verbatim>\<open>archive/tar\<close>)\<close>

record Header =
  Typeflag :: char
  Name :: string
  Linkname :: string
  Size :: int
  Mode :: int
  ModTime :: int

definition TypeReg :: char where "TypeReg = CHR ''0''"
definition TypeSymlink :: char where "TypeSymlink = CHR ''2''"
definition TypeChar :: char where "TypeChar = CHR ''3''"
definition TypeBlock :: char where "TypeBlock = CHR ''4''"
definition TypeDir :: char where "TypeDir = CHR ''5''"
definition TypeFifo :: char where "TypeFifo = CHR ''6''"
definition TypeLink :: char where "TypeLink = CHR ''1''"

definition isHeaderOnlyType :: "char \<Rightarrow> bool" where
  "isHeaderOnlyType flag \<longleftrightarrow>
     flag = TypeLink \<or> flag = TypeSymlink \<or> flag = TypeChar \<or> flag = TypeBlock
     \<or> flag = TypeDir \<or> flag = TypeFifo"

text \<open>
  \<^verbatim>\<open>tar.FileInfoHeader(fi, link)\<close>: the header of a node, by the type bits of its mode,
  in the order of the library's switch. Sockets and unknown modes are refused.
\<close>

definition header_mode :: "FileMode \<Rightarrow> int" where
  "header_mode fm =
     (let m0 = uint (fm AND ModePerm);
          m1 = (if fm AND ModeSetuid \<noteq> 0 then m0 OR 2048 else m0);
          m2 = (if fm AND ModeSetgid \<noteq> 0 then m1 OR 1024 else m1)
      in (if fm AND ModeSticky \<noteq> 0 then m2 OR 512 else m2))"

definition tar_FileInfoHeader :: "FileInfo \<Rightarrow> string \<Rightarrow> error + Header" where
  "tar_FileInfoHeader fi link =
     (let fm = fi_mode fi;
          h = \<lparr>Typeflag = CHR 0x00, Name = fi_name fi, Linkname = '''', Size = 0,
               Mode = header_mode fm, ModTime = fi_modtime fi\<rparr>
      in if IsRegular fm then Inr (h\<lparr>Typeflag := TypeReg, Size := fi_size fi\<rparr>)
         else if IsDir fm then Inr (h\<lparr>Typeflag := TypeDir, Name := Name h @ ''/''\<rparr>)
         else if fm AND ModeSymlink \<noteq> 0 then Inr (h\<lparr>Typeflag := TypeSymlink, Linkname := link\<rparr>)
         else if fm AND ModeDevice \<noteq> 0 then
           (if fm AND ModeCharDevice \<noteq> 0 then Inr (h\<lparr>Typeflag := TypeChar\<rparr>)
            else Inr (h\<lparr>Typeflag := TypeBlock\<rparr>))
         else if fm AND ModeNamedPipe \<noteq> 0 then Inr (h\<lparr>Typeflag := TypeFifo\<rparr>)
         else if fm AND ModeSocket \<noteq> 0 then Inl (ErrHeader ''archive/tar: sockets not supported'')
         else Inl (ErrHeader ''archive/tar: unknown file mode''))"

text \<open>
  The writer, abstracted to the sequence of items it has accepted. \<open>tw_curr\<close> is the
  number of content bytes the current entry still owes (\<^verbatim>\<open>tw.curr.logicalRemaining()\<close>),
  \<open>tw_err\<close> the writer's sticky error, and \<open>tw_sink\<close> the underlying \<^verbatim>\<open>io.Writer\<close>:
  how many more writes it accepts before it fails (\<open>None\<close>: it never fails).
\<close>

datatype tar_item = TarHeader Header | TarData "byte list" | TarTrailer

record tar_Writer =
  tw_out :: "tar_item list"
  tw_curr :: int
  tw_err :: "error option"
  tw_sink :: "nat option"

definition tar_NewWriter :: "nat option \<Rightarrow> tar_Writer" where
  "tar_NewWriter w = \<lparr>tw_out = [], tw_curr = 0, tw_err = None, tw_sink = w\<rparr>"

definition tar_sink :: "tar_Writer \<Rightarrow> tar_Writer" where
  "tar_sink w =
     (case tw_sink w of
        None \<Rightarrow> w
      | Some 0 \<Rightarrow> w\<lparr>tw_err := Some ErrSink\<rparr>
      | Some (Suc n) \<Rightarrow> w\<lparr>tw_sink := Some n\<rparr>)"

definition tar_WriteHeader :: "Header \<Rightarrow> tar_Writer \<Rightarrow> tar_Writer \<times> error option" where
  "tar_WriteHeader hdr w =
     (case tw_err w of
        Some e \<Rightarrow> (w, Some e)
      | None \<Rightarrow>
          if tw_curr w > 0 then (w, Some (ErrMissed (tw_curr w)))
          else
            (let w1 = tar_sink w in
             case tw_err w1 of
               Some e \<Rightarrow> (w1, Some e)
             | None \<Rightarrow>
                 (w1\<lparr>tw_out := tw_out w1 @ [TarHeader hdr],
                     tw_curr := (if isHeaderOnlyType (Typeflag hdr) then 0 else Size hdr)\<rparr>,
                  None)))"

definition tar_Write :: "byte list \<Rightarrow> tar_Writer \<Rightarrow> tar_Writer \<times> error option" where
  "tar_Write b w =
     (case tw_err w of
        Some e \<Rightarrow> (w, Some e)
      | None \<Rightarrow>
          (let b1 = take (nat (tw_curr w)) b;
               w1 = (if b1 \<noteq> [] then tar_sink w else w)
           in case tw_err w1 of
                Some e \<Rightarrow> (w1, Some e)
              | None \<Rightarrow>
                  (w1\<lparr>tw_out := tw_out w1 @ (if b1 = [] then [] else [TarData b1]),
                      tw_curr := tw_curr w1 - int (length b1)\<rparr>,
                   if int (length b) > tw_curr w then Some ErrWriteTooLong else None)))"

definition tar_Close :: "tar_Writer \<Rightarrow> tar_Writer \<times> error option" where
  "tar_Close w =
     (case tw_err w of
        Some e \<Rightarrow> (w, if e = ErrWriteAfterClose then None else Some e)
      | None \<Rightarrow>
          if tw_curr w > 0
          then (w\<lparr>tw_err := Some ErrWriteAfterClose\<rparr>, Some (ErrMissed (tw_curr w)))
          else
            (let w1 = tar_sink w in
             case tw_err w1 of
               Some e \<Rightarrow> (w1\<lparr>tw_err := Some ErrWriteAfterClose\<rparr>, Some e)
             | None \<Rightarrow>
                 (w1\<lparr>tw_out := tw_out w1 @ [TarTrailer], tw_err := Some ErrWriteAfterClose\<rparr>,
                  None)))"

section \<open>\<^verbatim>\<open>DumpDir\<close>\<close>

text \<open>
  The state the walk threads: the tar writer, the lines written with \<^verbatim>\<open>log.Printf\<close>,
  the paths given to \<^verbatim>\<open>os.Open\<close>, and the record of what the walker did (which
  callback invocations it made, with which error argument, and what each returned;
  which directories it read).
\<close>

datatype wevent =
    Visit string "error option"
  | Returned string "error option"
  | ReadDirOp string

record dstate =
  tw :: tar_Writer
  logs :: "string list"
  opened :: "string list"
  wtrace :: "wevent list"

text \<open>\<^verbatim>\<open>io.Copy(archW, f)\<close>: the bytes the file yields go to the tar writer.\<close>

definition io_Copy :: "string \<Rightarrow> byte list \<times> errno option \<Rightarrow> tar_Writer \<Rightarrow> tar_Writer \<times> error option" where
  "io_Copy pth src w =
     (case (if fst src = [] then (w, None) else tar_Write (fst src) w) of
        (w1, Some e) \<Rightarrow> (w1, Some e)
      | (w1, None) \<Rightarrow> (w1, map_option (PathError ''read'' pth) (snd src)))"

text \<open>Line 74: the permission bits grant read access to others.\<close>

definition fileReadable :: "FileInfo \<Rightarrow> bool" where
  "fileReadable fileInfo \<longleftrightarrow> (fi_mode fileInfo AND ModePerm) AND 4 \<noteq> 0"

text \<open>
  Lines 72--77: the header that is written, from the one \<^verbatim>\<open>tar.FileInfoHeader\<close>
  built: the name is the path relative to the root, and the size is 0 when the file
  is not readable by others.
\<close>

definition entry_header :: "string \<Rightarrow> FileInfo \<Rightarrow> Header \<Rightarrow> Header" where
  "entry_header p fileInfo hdr0 =
     (let hdr = hdr0\<lparr>Name := p\<rparr>
      in if \<not> fileReadable fileInfo then hdr\<lparr>Size := 0\<rparr> else hdr)"

text \<open>Lines 66--95 of \<^verbatim>\<open>main.go\<close>: header, size policy, content.\<close>

definition dump_entry :: "string \<Rightarrow> string \<Rightarrow> DirEntry \<Rightarrow> FileInfo \<Rightarrow> string \<Rightarrow> dstate \<Rightarrow> dstate \<times> error option" where
  "dump_entry dumpPath p d fileInfo link s =
     (case tar_FileInfoHeader fileInfo link of
        Inl e \<Rightarrow> (s, Some (Wrapped ''error generating tar header'' e))
      | Inr hdr0 \<Rightarrow>
          (case tar_WriteHeader (entry_header p fileInfo hdr0) (tw s) of
             (w1, Some e) \<Rightarrow> (s\<lparr>tw := w1\<rparr>, Some (Wrapped ''error writing header'' e))
           | (w1, None) \<Rightarrow>
               if \<not> IsRegular (fi_mode fileInfo) \<or> \<not> fileReadable fileInfo
               then (s\<lparr>tw := w1\<rparr>, None)
               else
                 (let pth = path_Join dumpPath p;
                      s1 = s\<lparr>tw := w1, opened := opened s @ [pth]\<rparr>
                  in case de_open d of
                       Inl en \<Rightarrow>
                         (s1, Some (Wrapped ''error reading file'' (PathError ''open'' pth en)))
                     | Inr f \<Rightarrow>
                         (case io_Copy pth f w1 of
                            (w2, Some e) \<Rightarrow> (s1\<lparr>tw := w2\<rparr>, Some (Wrapped ''can't copy file'' e))
                          | (w2, None) \<Rightarrow> (s1\<lparr>tw := w2\<rparr>, None)))))"

text \<open>Lines 31--34: the paths the callback leaves at once.\<close>

definition skipped :: "string \<Rightarrow> bool" where
  "skipped p \<longleftrightarrow>
     strings_HasPrefix p ''dev/'' \<or> strings_HasPrefix p ''proc/''
     \<or> strings_HasPrefix p ''sys/'' \<or> p = ''.''"

text \<open>
  The callback given to \<^verbatim>\<open>fs.WalkDir\<close> (lines 30--96). \<open>d\<close> is \<open>None\<close> for Go's nil
  entry, which the walker passes only when the root cannot be examined.
\<close>

definition dumpfn :: "string \<Rightarrow> string \<Rightarrow> DirEntry option \<Rightarrow> error option \<Rightarrow> dstate \<Rightarrow> dstate \<times> error option" where
  "dumpfn dumpPath p d err s =
     (if skipped p then (s, None)
      else
        (case (case err of None \<Rightarrow> None
                | Some e \<Rightarrow> if \<not> errors_Is e ErrPermission then Some e else None) of
           Some e \<Rightarrow> (s, Some e)
         | None \<Rightarrow>
            (case d of
               None \<Rightarrow> (s, Some NilDeref)
             | Some de \<Rightarrow>
                (case de_info de of
                   Inl en \<Rightarrow>
                     (let e = PathError ''lstat'' (path_Join dumpPath p) en in
                      if errors_Is e ErrNotExist
                      then (s\<lparr>logs := logs s @ [path_Join dumpPath p @ '': not exists'']\<rparr>, None)
                      else (s, Some (Wrapped ''error getting file info'' e)))
                 | Inr fileInfo \<Rightarrow>
                     if fi_mode fileInfo AND ModeSymlink \<noteq> 0 then
                       (case de_readlink de of
                          Inr target \<Rightarrow> dump_entry dumpPath p de fileInfo target s
                        | Inl en \<Rightarrow>
                            (let e = PathError ''readlink'' (path_Join dumpPath p) en in
                             if errors_Is e ErrPermission
                             then dump_entry dumpPath p de fileInfo ''permission denied'' s
                             else (s, Some (Wrapped ''error reading link'' e))))
                     else if fi_mode fileInfo AND ModeSocket \<noteq> 0 then
                       (s\<lparr>logs := logs s @ [path_Join dumpPath p @ '': skipping socket'']\<rparr>, None)
                     else dump_entry dumpPath p de fileInfo '''' s))))"

section \<open>The walker (\<^verbatim>\<open>io/fs.WalkDir\<close>)\<close>

type_synonym walkfn = "string \<Rightarrow> DirEntry option \<Rightarrow> error option \<Rightarrow> dstate \<Rightarrow> dstate \<times> error option"

text \<open>One invocation of the callback, recorded in \<open>wtrace\<close>.\<close>

definition invoke :: "walkfn \<Rightarrow> string \<Rightarrow> DirEntry option \<Rightarrow> error option \<Rightarrow> dstate \<Rightarrow> dstate \<times> error option" where
  "invoke fn p d err s =
     (case fn p d err (s\<lparr>wtrace := wtrace s @ [Visit p err]\<rparr>) of
        (s1, r) \<Rightarrow> (s1\<lparr>wtrace := wtrace s1 @ [Returned p r]\<rparr>, r))"

text \<open>
  \<^verbatim>\<open>walkDir\<close> of \<^verbatim>\<open>io/fs\<close>: call the callback on the node; a directory is then read
  (a read error is reported to the callback in a second call) and its entries are
  walked in order. \<^verbatim>\<open>SkipDir\<close> from the callback skips the directory, or the
  remaining entries of the parent.
\<close>

fun walkDir :: "walkfn \<Rightarrow> string \<Rightarrow> node \<Rightarrow> dstate \<Rightarrow> dstate \<times> error option"
  and walkList :: "walkfn \<Rightarrow> string \<Rightarrow> node list \<Rightarrow> dstate \<Rightarrow> dstate \<times> error option"
where
  "walkDir fn name (Node d kids) s =
     (case invoke fn name (Some d) None s of
        (s1, Some e) \<Rightarrow> (s1, if e = SkipDir \<and> de_isdir d then None else Some e)
      | (s1, None) \<Rightarrow>
          if \<not> de_isdir d then (s1, None)
          else
            (let s2 = s1\<lparr>wtrace := wtrace s1 @ [ReadDirOp name]\<rparr> in
             case (case de_readdir d of
                     None \<Rightarrow> (s2, None)
                   | Some en \<Rightarrow> invoke fn name (Some d) (Some (PathError ''readdir'' name en)) s2) of
               (s3, Some e) \<Rightarrow> (s3, if e = SkipDir \<and> de_isdir d then None else Some e)
             | (s3, None) \<Rightarrow> walkList fn name kids s3))"
| "walkList fn name [] s = (s, None)"
| "walkList fn name (Node d1 kids1 # ds) s =
     (case walkDir fn (path_Join name (de_name d1)) (Node d1 kids1) s of
        (s1, Some e) \<Rightarrow> if e = SkipDir then (s1, None) else (s1, Some e)
      | (s1, None) \<Rightarrow> walkList fn name ds s1)"

definition WalkDir :: "walkfn \<Rightarrow> fsys \<Rightarrow> dstate \<Rightarrow> dstate \<times> error option" where
  "WalkDir fn fsys s =
     (case (case fsys of
              StatFails en \<Rightarrow> invoke fn ''.'' None (Some (PathError ''stat'' ''.'' en)) s
            | Tree root \<Rightarrow> walkDir fn ''.'' root s) of
        (s1, err) \<Rightarrow> (s1, if err = Some SkipDir \<or> err = Some SkipAll then None else err))"

text \<open>\<^verbatim>\<open>DumpDir(w, dumpPath)\<close> on a file system, with the final state it leaves.\<close>

definition DumpDir :: "nat option \<Rightarrow> string \<Rightarrow> fsys \<Rightarrow> dstate \<times> error option" where
  "DumpDir w dumpPath fsys =
     (case WalkDir (dumpfn dumpPath) fsys
             \<lparr>tw = tar_NewWriter w, logs = [], opened = [], wtrace = []\<rparr> of
        (s, Some e) \<Rightarrow> (s, Some (Wrapped ''error dumping dir'' e))
      | (s, None) \<Rightarrow> (case tar_Close (tw s) of (w1, r) \<Rightarrow> (s\<lparr>tw := w1\<rparr>, r)))"

section \<open>Reading the walk record\<close>

text \<open>The errors that callback invocations returned, in order.\<close>

fun returned_errors :: "wevent list \<Rightarrow> error list" where
  "returned_errors [] = []"
| "returned_errors (Returned p (Some e) # es) = e # returned_errors es"
| "returned_errors (ev # es) = returned_errors es"

text \<open>
  The shape of a walk's result used in the proofs below: either no error and a state
  satisfying \<open>P\<close>, or an error that is not one of the walker's skip signals together with
  a state satisfying \<open>R\<close>.
\<close>

definition walk_post :: "(dstate \<Rightarrow> bool) \<Rightarrow> (dstate \<Rightarrow> error \<Rightarrow> bool) \<Rightarrow> dstate \<times> error option \<Rightarrow> bool" where
  "walk_post P R res \<longleftrightarrow>
     (case snd res of
        None \<Rightarrow> P (fst res)
      | Some e \<Rightarrow> R (fst res) e \<and> e \<noteq> SkipDir \<and> e \<noteq> SkipAll)"

section \<open>The producer task\<close>

text \<open>
  \<^verbatim>\<open>gzip.NewWriterLevel\<close> of \<^verbatim>\<open>compress/gzip\<close> and its level constants: a level
  outside \<open>HuffmanOnly .. BestCompression\<close> gives a nil writer and an error.
\<close>

definition HuffmanOnly :: int where "HuffmanOnly = - 2"
definition DefaultCompression :: int where "DefaultCompression = - 1"
definition NoCompression :: int where "NoCompression = 0"
definition BestSpeed :: int where "BestSpeed = 1"
definition BestCompression :: int where "BestCompression = 9"

record gzip_Writer =
  gz_level :: int
  gz_closed :: bool

definition gzip_NewWriterLevel :: "int \<Rightarrow> gzip_Writer option \<times> error option" where
  "gzip_NewWriterLevel level =
     (if level < HuffmanOnly \<or> level > BestCompression
      then (None, Some (External ''gzip: invalid compression level''))
      else (Some \<lparr>gz_level = level, gz_closed = False\<rparr>, None))"

text \<open>
  The in-memory pipe (\<^verbatim>\<open>io.Pipe\<close>), as far as closing goes: the error the write end
  was closed with (\<^verbatim>\<open>io.EOF\<close> for a plain \<^verbatim>\<open>Close\<close>; the first close wins) and the one
  the read end was closed with. \<open>pipe_Read\<close> is what a read of the read end returns once
  the pipe is closed; on an open pipe a read hands over written bytes or waits
  (\<open>None\<close>).
\<close>

record Pipe =
  p_werr :: "error option"
  p_rerr :: "error option"

definition io_Pipe :: Pipe where
  "io_Pipe = \<lparr>p_werr = None, p_rerr = None\<rparr>"

definition pipe_CloseWithError :: "error option \<Rightarrow> Pipe \<Rightarrow> Pipe" where
  "pipe_CloseWithError err p =
     (if p_werr p = None
      then p\<lparr>p_werr := Some (case err of None \<Rightarrow> EOF | Some e \<Rightarrow> e)\<rparr>
      else p)"

definition pipe_Close :: "Pipe \<Rightarrow> Pipe" where
  "pipe_Close p = pipe_CloseWithError None p"


text \<open>
  The second goroutine of \<^verbatim>\<open>Handler\<close> (lines 190--202). The error of
  \<^verbatim>\<open>gzip.NewWriterLevel\<close> is dropped; a nil writer would make the first use of
  \<^verbatim>\<open>gzipW\<close> panic. The pipe's write end accepts every write (neither end is closed
  before this task closes it), so the tar writer's sink never fails here. What the task
  does to the compressor and the pipe afterwards is recorded in order, together with
  the pipe as the task leaves it.
\<close>

datatype pevent = GzipClose | PipeCloseWithError error | PipeClose

datatype 'a outcome = Panic | Return 'a

definition producer_task :: "fsys \<Rightarrow> Pipe \<Rightarrow> (dstate \<times> pevent list \<times> Pipe \<times> error option) outcome" where
  "producer_task fsys pipeW =
     (case gzip_NewWriterLevel BestSpeed of
        (gzipW, _) \<Rightarrow>
          (case gzipW of
             None \<Rightarrow> Panic
           | Some gz \<Rightarrow>
               (case DumpDir None ''/'' fsys of
                  (s, err) \<Rightarrow>
                    (case err of
                       Some e \<Rightarrow>
                         Return (s, [GzipClose, PipeCloseWithError e],
                                 pipe_CloseWithError (Some e) pipeW, err)
                     | None \<Rightarrow>
                         Return (s, [GzipClose, PipeClose], pipe_Close pipeW, err)))))"

section \<open>The request handler\<close>

record Payload =
  VersionId :: string
  Entries :: "(string \<times> string) list"

record Options =
  Creds :: "string \<times> string \<times> string"
  Secure :: bool
  Region :: string

record Client =
  cl_endpoint :: string
  cl_opts :: Options

record UploadInfo =
  Bucket :: string
  Key :: string

text \<open>
  Everything outside the program that one request meets: the environment, the cloud SDK,
  the secret store, the storage client library (whether it accepts the options, what the
  upload returns, what presigning returns), the file system under \<^verbatim>\<open>/\<close>, which of the
  two goroutines finishes first, and the clock (the upload's start time in RFC 3339 and
  the elapsed seconds printed with \<^verbatim>\<open>%.3f\<close>).
\<close>

record world =
  getenv :: "string \<Rightarrow> string"
  ycsdk_Build :: "error option"
  lockbox_Get :: "string \<Rightarrow> error + Payload"
  minio_New :: "string \<Rightarrow> Options \<Rightarrow> error option"
  PutObject :: "Client \<Rightarrow> string \<Rightarrow> string \<Rightarrow> UploadInfo \<times> error option"
  upload_first :: bool
  root_fs :: fsys
  PresignedGetObject :: "Client \<Rightarrow> string \<Rightarrow> string \<Rightarrow> nat \<Rightarrow> error + string"
  now_rfc3339 :: string
  elapsed :: string

text \<open>
  What the handler does, in order: log lines, calls on the response writer, and the
  calls to the storage library that carry data of interest.
\<close>

datatype hevent =
    Log string
  | HeaderSet string string
  | WriteHeader nat
  | Write string
  | CallNewS3Client string string
  | CallPresignedGetObject string string nat
  | Crashed

definition newline :: string where "newline = [CHR 0x0A]"

text \<open>\<^verbatim>\<open>http.Error(w, msg, code)\<close>.\<close>

definition http_Error :: "string \<Rightarrow> nat \<Rightarrow> hevent list" where
  "http_Error msg code =
     [HeaderSet ''Content-Type'' ''text/plain; charset=utf-8'',
      HeaderSet ''X-Content-Type-Options'' ''nosniff'',
      WriteHeader code,
      Write (msg @ newline)]"

text \<open>Reading a Go map at a key: the zero value (the empty string) when the key is absent.\<close>

definition map_index :: "(string \<rightharpoonup> string) \<Rightarrow> string \<Rightarrow> string" where
  "map_index m k = (case m k of None \<Rightarrow> '''' | Some v \<Rightarrow> v)"

text \<open>\<^verbatim>\<open>getSecret\<close> (lines 106--126): the log line and the map built from the entries.\<close>

definition getSecret :: "world \<Rightarrow> hevent list \<times> (error + (string \<rightharpoonup> string))" where
  "getSecret W =
     (let secretID = getenv W ''SECRET_ID'' in
      case lockbox_Get W secretID of
        Inl e \<Rightarrow> ([], Inl e)
      | Inr payload \<Rightarrow>
          ([Log (''got secrets from '' @ secretID @ '' version '' @ VersionId payload)],
           Inr (fold (\<lambda>entry secrets. secrets(fst entry \<mapsto> snd entry)) (Entries payload) Map.empty)))"

text \<open>\<^verbatim>\<open>NewS3Client\<close> (lines 128--137).\<close>

definition NewS3Client :: "world \<Rightarrow> string \<Rightarrow> string \<Rightarrow> error + Client" where
  "NewS3Client W ident secret =
     (let s3Endpoint = ''storage.yandexcloud.net'';
          opts = \<lparr>Creds = (ident, secret, ''''), Secure = True, Region = getenv W ''REGION''\<rparr>
      in case minio_New W s3Endpoint opts of
           Some e \<Rightarrow> Inl e
         | None \<Rightarrow> Inr \<lparr>cl_endpoint = s3Endpoint, cl_opts = opts\<rparr>)"

text \<open>
  \<^verbatim>\<open>errgroup.Wait\<close>: the first non-nil error among the tasks' results, taken in the
  order in which the tasks finished.
\<close>

definition errg_Wait :: "error option list \<Rightarrow> error option" where
  "errg_Wait rs = (case filter (\<lambda>r. r \<noteq> None) rs of [] \<Rightarrow> None | r # _ \<Rightarrow> r)"

text \<open>
  The two tasks and \<^verbatim>\<open>errg.Wait()\<close> (lines 169--204), for a run in which both tasks
  return: the value of \<^verbatim>\<open>errg.Wait()\<close> and of \<^verbatim>\<open>putInfo\<close>. What the upload returns
  is the storage library's answer and an input here; how the two goroutines interleave
  on the pipe is not part of this model.
\<close>

definition pipeline :: "world \<Rightarrow> Client \<Rightarrow> (error option \<times> UploadInfo) outcome" where
  "pipeline W s3client =
     (case PutObject W s3client (getenv W ''BUCKET'')
             (''go/'' @ now_rfc3339 W @ ''/dump.tar.gz'') of
        (putInfo, uerr) \<Rightarrow>
          (case producer_task (root_fs W) io_Pipe of
             Panic \<Rightarrow> Panic
           | Return (s, pev, pipe, perr) \<Rightarrow>
               Return (errg_Wait (if upload_first W then [uerr, perr] else [perr, uerr]),
                       putInfo)))"

text \<open>\<^verbatim>\<open>Handler\<close> (lines 141--226).\<close>

definition Handler :: "world \<Rightarrow> hevent list" where
  "Handler W =
     (case ycsdk_Build W of
        Some e \<Rightarrow> Log (Error e) # http_Error ''can't initalize sdk'' 500
      | None \<Rightarrow>
          (case getSecret W of
             (lg, Inl e) \<Rightarrow> lg @ Log (Error e) # http_Error ''can't get secrets'' 500
           | (lg, Inr secrets) \<Rightarrow>
               (let ident = map_index secrets ''AWS_ACCESS_KEY'';
                    secret = map_index secrets ''AWS_SECRET_KEY''
                in lg @ CallNewS3Client ident secret #
                   (case NewS3Client W ident secret of
                      Inl e \<Rightarrow> Log (Error e) # http_Error ''s3 unavailable'' 500
                    | Inr s3client \<Rightarrow>
                        (case pipeline W s3client of
                           Panic \<Rightarrow> [Crashed]
                         | Return (err, putInfo) \<Rightarrow>
                             HeaderSet ''Server-Timing'' (''total;dur='' @ elapsed W) #
                             (case err of
                                Some e \<Rightarrow> http_Error (Error e) 500
                              | None \<Rightarrow>
                                  WriteHeader 200 #
                                  CallPresignedGetObject (Bucket putInfo) (Key putInfo) 900 #
                                  (case PresignedGetObject W s3client (Bucket putInfo) (Key putInfo) 900 of
                                     Inl e \<Rightarrow> [Write (''error generating presigned url: '' @ Error e)]
                                   | Inr presigned \<Rightarrow> [Write (presigned @ newline)])))))))"

text \<open>
  The response a client sees: the header map at the moment the status line goes out
  (the first \<^verbatim>\<open>WriteHeader\<close> or \<^verbatim>\<open>Write\<close>), the status, and the body.
\<close>

fun sent_headers :: "hevent list \<Rightarrow> (string \<rightharpoonup> string) \<Rightarrow> (string \<rightharpoonup> string)" where
  "sent_headers [] h = h"
| "sent_headers (HeaderSet k v # es) h = sent_headers es (h(k \<mapsto> v))"
| "sent_headers (WriteHeader c # es) h = h"
| "sent_headers (Write b # es) h = h"
| "sent_headers (e # es) h = sent_headers es h"

fun resp_status :: "hevent list \<Rightarrow> nat option" where
  "resp_status [] = None"
| "resp_status (WriteHeader c # es) = Some c"
| "resp_status (Write b # es) = Some 200"
| "resp_status (e # es) = resp_status es"

fun resp_body :: "hevent list \<Rightarrow> string" where
  "resp_body [] = []"
| "resp_body (Write b # es) = b @ resp_body es"
| "resp_body (e # es) = resp_body es"

section \<open>Example file systems\<close>

text \<open>Small file systems on which the theorems below are exercised.\<close>

definition dir_entry :: "string \<Rightarrow> DirEntry" where
  "dir_entry n =
     \<lparr>de_name = n, de_isdir = True,
      de_info = Inr \<lparr>fi_name = n, fi_size = 4096, fi_mode = ModeDir OR 493, fi_modtime = 0\<rparr>,
      de_readlink = Inl (EOTHER ''invalid argument''),
      de_open = Inr ([], Some (EOTHER ''is a directory'')),
      de_readdir = None\<rparr>"

definition file_entry :: "string \<Rightarrow> FileMode \<Rightarrow> byte list \<Rightarrow> DirEntry" where
  "file_entry n m b =
     \<lparr>de_name = n, de_isdir = False,
      de_info = Inr \<lparr>fi_name = n, fi_size = int (length b), fi_mode = m, fi_modtime = 0\<rparr>,
      de_readlink = Inl (EOTHER ''invalid argument''),
      de_open = Inr (b, None),
      de_readdir = None\<rparr>"

definition link_entry :: "string \<Rightarrow> errno + string \<Rightarrow> DirEntry" where
  "link_entry n target =
     \<lparr>de_name = n, de_isdir = False,
      de_info = Inr \<lparr>fi_name = n, fi_size = 0, fi_mode = ModeSymlink OR 511, fi_modtime = 0\<rparr>,
      de_readlink = target,
      de_open = Inl (EOTHER ''too many levels of symbolic links''),
      de_readdir = None\<rparr>"

definition fs_virtual :: fsys where
  "fs_virtual =
     Tree (Node (dir_entry ''.'')
       [Node (file_entry ''a.txt'' 420 [1, 2, 3]) [],
        Node (dir_entry ''dev'')
          [Node (dir_entry ''shm'') [Node (file_entry ''x'' 420 [7]) []]]])"

definition init_state :: dstate where
  "init_state = \<lparr>tw = tar_NewWriter None, logs = [], opened = [], wtrace = []\<rparr>"

definition fs_noperm :: fsys where
  "fs_noperm =
     Tree (Node (dir_entry ''.'')
       [Node ((file_entry ''secret'' 420 [])\<lparr>de_info := Inl EACCES\<rparr>) [],
        Node (file_entry ''z.txt'' 420 [1]) []])"

definition fs_unopenable :: fsys where
  "fs_unopenable =
     Tree (Node (dir_entry ''.'')
       [Node ((file_entry ''a'' 420 [1, 2, 3])\<lparr>de_open := Inl EACCES\<rparr>) []])"

definition fs_links :: fsys where
  "fs_links =
     Tree (Node (dir_entry ''.'')
       [Node (file_entry ''a.txt'' 420 [1, 2, 3]) [],
        Node (link_entry ''denied'' (Inl EACCES)) [],
        Node (link_entry ''link'' (Inr ''a.txt'')) []])"

definition fs_badlink :: fsys where
  "fs_badlink =
     Tree (Node (dir_entry ''.'')
       [Node (link_entry ''broken'' (Inl (EOTHER ''input/output error''))) [],
        Node (file_entry ''z.txt'' 420 [1]) []])"

definition fs_private :: fsys where
  "fs_private =
     Tree (Node (dir_entry ''.'')
       [Node (file_entry ''private'' 416 [9, 9]) [],
        Node (file_entry ''public'' 420 [1, 2, 3]) []])"

definition world_ok :: world where
  "world_ok =
     \<lparr>getenv = (\<lambda>k. if k = ''SECRET_ID'' then ''sec1''
                    else if k = ''BUCKET'' then ''backups''
                    else if k = ''REGION'' then ''ru-central1'' else ''''),
      ycsdk_Build = None,
      lockbox_Get = (\<lambda>ident. Inr \<lparr>VersionId = ''v1'',
                                   Entries = [(''AWS_ACCESS_KEY'', ''AK''), (''AWS_SECRET_KEY'', ''SK'')]\<rparr>),
      minio_New = (\<lambda>endpoint opts. None),
      PutObject = (\<lambda>c bucket k. (\<lparr>Bucket = bucket, Key = k\<rparr>, None)),
      upload_first = False,
      root_fs = fs_links,
      PresignedGetObject = (\<lambda>c bucket k ttl. Inr (''https://storage.yandexcloud.net/'' @ bucket @ ''/'' @ k)),
      now_rfc3339 = ''2024-01-01T00:00:00Z'',
      elapsed = ''1.234''\<rparr>"





section \<open>Lemmas\<close>

subsection \<open>The tar writer\<close>

lemma tar_sink_out [simp]: "tw_out (tar_sink w) = tw_out w"
  by (simp add: tar_sink_def split: option.splits nat.splits)

lemma tar_sink_curr [simp]: "tw_curr (tar_sink w) = tw_curr w"
  by (simp add: tar_sink_def split: option.splits nat.splits)

lemma tar_sink_healthy:
  "tw_err w = None \<Longrightarrow> tw_sink w \<noteq> Some 0 \<Longrightarrow> tw_err (tar_sink w) = None"
  by (simp add: tar_sink_def split: option.splits nat.splits)

lemma tar_WriteHeader_cases:
  assumes "tar_WriteHeader hdr w = (w1, r)"
  shows "(r = None \<and> tw_out w1 = tw_out w @ [TarHeader hdr] \<and> tw_err w1 = None
            \<and> tw_curr w1 = (if isHeaderOnlyType (Typeflag hdr) then 0 else Size hdr))
         \<or> (r \<noteq> None \<and> tw_out w1 = tw_out w)"
  using assms
  by (auto simp: tar_WriteHeader_def Let_def split: option.splits if_splits) metis+

lemma tar_WriteHeader_healthy:
  assumes "tw_err w = None" "tw_curr w \<le> 0" "tw_sink w \<noteq> Some 0"
  shows "snd (tar_WriteHeader hdr w) = None"
  using assms tar_sink_healthy[of w]
  by (simp add: tar_WriteHeader_def Let_def)

lemma tar_Write_cases:
  assumes "tar_Write b w = (w1, r)"
  shows "(tw_out w1 = tw_out w \<or> (\<exists>b1. tw_out w1 = tw_out w @ [TarData b1]))
         \<and> (r = None \<longrightarrow> tw_out w1 = tw_out w @ (if b = [] then [] else [TarData b]))"
proof -
  have pos: "b \<noteq> [] \<Longrightarrow> 0 < int (length b)" by simp
  show ?thesis
  proof (cases "tw_err w")
    case (Some e)
    then have "w1 = w" and "r = Some e" using assms by (auto simp: tar_Write_def)
    then show ?thesis by simp
  next
    case None
    define b1 where "b1 = take (nat (tw_curr w)) b"
    define w0 where "w0 = (if b1 \<noteq> [] then tar_sink w else w)"
    have out0: "tw_out w0 = tw_out w" by (simp add: w0_def)
    show ?thesis
    proof (cases "tw_err w0")
      case (Some e)
      then have "w1 = w0" and "r = Some e" using assms None
        by (auto simp: tar_Write_def Let_def b1_def[symmetric] w0_def[symmetric])
      then show ?thesis using out0 by simp
    next
      case N0: None
      have w1: "tw_out w1 = tw_out w @ (if b1 = [] then [] else [TarData b1])"
        and r: "r = (if int (length b) > tw_curr w then Some ErrWriteTooLong else None)"
        using assms None N0 out0
        by (auto simp: tar_Write_def Let_def b1_def[symmetric] w0_def[symmetric])
      have "r = None \<Longrightarrow> b1 = b" using r by (auto simp: b1_def split: if_splits)
      then show ?thesis using w1 by auto
    qed
  qed
qed

lemma io_Copy_cases:
  assumes "io_Copy pth src w = (w1, r)"
  shows "(tw_out w1 = tw_out w \<or> (\<exists>b1. tw_out w1 = tw_out w @ [TarData b1]))
         \<and> (r = None \<longrightarrow> snd src = None
               \<and> tw_out w1 = tw_out w @ (if fst src = [] then [] else [TarData (fst src)]))"
proof (cases "fst src = []")
  case True
  then show ?thesis using assms by (auto simp: io_Copy_def split: option.splits)
next
  case False
  obtain w2 r2 where w: "tar_Write (fst src) w = (w2, r2)" by (cases "tar_Write (fst src) w")
  from tar_Write_cases[OF w] show ?thesis
    using assms False w by (cases r2) (auto simp: io_Copy_def)
qed

lemma tar_Close_out:
  "TarHeader h \<in> set (tw_out (fst (tar_Close w))) \<longleftrightarrow> TarHeader h \<in> set (tw_out w)"
  by (auto simp: tar_Close_def Let_def split: option.splits if_splits)

subsection \<open>One entry\<close>

lemma dump_entry_wtrace [simp]: "wtrace (fst (dump_entry dp p d fi link s)) = wtrace s"
  by (auto simp: dump_entry_def Let_def split: sum.splits prod.splits option.splits)

lemma dump_entry_error_shape:
  "snd (dump_entry dp p d fi link s) = Some e \<Longrightarrow> \<exists>m e'. e = Wrapped m e'"
  by (auto simp: dump_entry_def Let_def split: sum.splits prod.splits option.splits if_splits)

text \<open>What one call of \<open>dump_entry\<close> appends to the archive, opens and returns.\<close>

lemma dump_entry_cases:
  assumes "dump_entry dp p d fi link s = (s', r)"
  shows "(tw_out (tw s') = tw_out (tw s) \<and> opened s' = opened s \<and> r \<noteq> None)
       \<or> (\<exists>h0 rest. tar_FileInfoHeader fi link = Inr h0
             \<and> tw_out (tw s') = tw_out (tw s) @ TarHeader (entry_header p fi h0) # rest
             \<and> (if IsRegular (fi_mode fi) \<and> fileReadable fi
                then opened s' = opened s @ [path_Join dp p]
                     \<and> (rest = [] \<or> (\<exists>b. rest = [TarData b]))
                     \<and> (r = None \<longrightarrow> (\<exists>b. de_open d = Inr (b, None)
                            \<and> rest = (if b = [] then [] else [TarData b])))
                else opened s' = opened s \<and> rest = [] \<and> r = None))"
proof (cases "tar_FileInfoHeader fi link")
  case (Inl e)
  then show ?thesis using assms by (auto simp: dump_entry_def)
next
  case (Inr h0)
  define hdr where "hdr = entry_header p fi h0"
  obtain w1 r1 where wh: "tar_WriteHeader hdr (tw s) = (w1, r1)" by (cases "tar_WriteHeader hdr (tw s)")
  show ?thesis
  proof (cases r1)
    case (Some e)
    then show ?thesis using assms Inr wh tar_WriteHeader_cases[OF wh]
      by (auto simp: dump_entry_def hdr_def)
  next
    case None
    have out1: "tw_out w1 = tw_out (tw s) @ [TarHeader hdr]"
      using tar_WriteHeader_cases[OF wh] None by auto
    show ?thesis
    proof (cases "IsRegular (fi_mode fi) \<and> fileReadable fi")
      case False
      then show ?thesis using assms Inr wh None out1
        by (auto simp: dump_entry_def hdr_def)
    next
      case True
      show ?thesis
      proof (cases "de_open d")
        case (Inl en)
        then show ?thesis using assms Inr wh None out1 True
          by (auto simp: dump_entry_def hdr_def Let_def)
      next
        case R: (Inr f)
        obtain w2 r2 where cp: "io_Copy (path_Join dp p) f w1 = (w2, r2)"
          by (cases "io_Copy (path_Join dp p) f w1")
        have s'tw: "tw s' = w2" and s'op: "opened s' = opened s @ [path_Join dp p]"
          and rr: "r = None \<longleftrightarrow> r2 = None"
          using assms Inr wh None True R cp
          by (auto simp: dump_entry_def hdr_def Let_def split: option.splits)
        have f: "f = (fst f, snd f)" by simp
        have "r = None \<longrightarrow> (\<exists>b. de_open d = Inr (b, None)
                \<and> tw_out w2 = tw_out w1 @ (if b = [] then [] else [TarData b]))"
          using io_Copy_cases[OF cp] rr R f by (metis)
        moreover have "tw_out w2 = tw_out w1 \<or> (\<exists>b1. tw_out w2 = tw_out w1 @ [TarData b1])"
          using io_Copy_cases[OF cp] by simp
        ultimately show ?thesis using Inr True s'tw s'op out1
          by (auto simp: hdr_def split: if_splits)
      qed
    qed
  qed
qed


subsection \<open>Headers\<close>

lemma entry_header_Name [simp]: "Name (entry_header p fi h0) = p"
  by (simp add: entry_header_def Let_def)

lemma entry_header_Linkname [simp]: "Linkname (entry_header p fi h0) = Linkname h0"
  by (simp add: entry_header_def Let_def)

lemma entry_header_Size_elided:
  assumes "tar_FileInfoHeader fi link = Inr h0" "\<not> (IsRegular (fi_mode fi) \<and> fileReadable fi)"
  shows "Size (entry_header p fi h0) = 0"
  using assms
  by (auto simp: entry_header_def tar_FileInfoHeader_def Let_def split: if_splits)

lemma entry_header_Size_kept:
  assumes "tar_FileInfoHeader fi link = Inr h0" "IsRegular (fi_mode fi)" "fileReadable fi"
  shows "Size (entry_header p fi h0) = fi_size fi"
  using assms
  by (auto simp: entry_header_def tar_FileInfoHeader_def Let_def split: if_splits)

lemma ModeType_Symlink: "ModeType AND ModeSymlink = ModeSymlink"
  by (simp add: ModeType_def ModeSymlink_def ModeDir_def ModeNamedPipe_def ModeSocket_def
      ModeDevice_def ModeCharDevice_def ModeIrregular_def)

lemma ModeType_Dir: "ModeType AND ModeDir = ModeDir"
  by (simp add: ModeType_def ModeSymlink_def ModeDir_def ModeNamedPipe_def ModeSocket_def
      ModeDevice_def ModeCharDevice_def ModeIrregular_def)

lemma symlink_mode:
  assumes "m AND ModeType = ModeSymlink"
  shows "m AND ModeSymlink \<noteq> 0" and "\<not> IsDir m" and "\<not> IsRegular m"
proof -
  have "m AND ModeSymlink = (m AND ModeType) AND ModeSymlink"
    by (simp add: and.assoc ModeType_Symlink)
  then show "m AND ModeSymlink \<noteq> 0" using assms by (simp add: ModeSymlink_def)
  have "m AND ModeDir = (m AND ModeType) AND ModeDir"
    by (simp add: and.assoc ModeType_Dir)
  then show "\<not> IsDir m" using assms by (simp add: IsDir_def ModeSymlink_def ModeDir_def)
  show "\<not> IsRegular m" using assms by (simp add: IsRegular_def ModeSymlink_def)
qed

lemma symlink_header_Linkname:
  assumes "tar_FileInfoHeader fi link = Inr h0" "fi_mode fi AND ModeType = ModeSymlink"
  shows "Linkname h0 = link"
  using assms symlink_mode[OF assms(2)]
  by (auto simp: tar_FileInfoHeader_def Let_def split: if_splits)

lemma symlink_header_ok:
  assumes "fi_mode fi AND ModeType = ModeSymlink"
  shows "\<exists>h0. tar_FileInfoHeader fi link = Inr h0"
  using symlink_mode[OF assms]
  by (auto simp: tar_FileInfoHeader_def Let_def)

subsection \<open>The callback\<close>

lemma dumpfn_wtrace [simp]: "wtrace (fst (dumpfn dp p d err s)) = wtrace s"
  by (auto simp: dumpfn_def Let_def split: sum.splits prod.splits option.splits)

lemma dumpfn_error_shape:
  "snd (dumpfn dp p d err s) = Some e \<Longrightarrow> err = Some e \<or> (\<exists>m e'. e = Wrapped m e') \<or> e = NilDeref"
  by (auto simp: dumpfn_def Let_def dest: dump_entry_error_shape split: sum.splits prod.splits option.splits if_splits)

lemma dumpfn_skipped: "skipped p \<Longrightarrow> dumpfn dp p d err s = (s, None)"
  by (simp add: dumpfn_def)

text \<open>Whenever the callback changes the archive, it did so through \<open>dump_entry\<close>.\<close>

lemma dumpfn_emit:
  assumes "dumpfn dp p d err s = (s', r)" "tw_out (tw s') \<noteq> tw_out (tw s)"
  shows "\<not> skipped p \<and> (\<exists>de fi link. d = Some de \<and> de_info de = Inr fi
            \<and> dump_entry dp p de fi link s = (s', r)
            \<and> (fi_mode fi AND ModeSymlink \<noteq> 0 \<longrightarrow>
                  (case de_readlink de of
                     Inr t \<Rightarrow> link = t
                   | Inl en \<Rightarrow> errno_Is en ErrPermission \<and> link = ''permission denied'')))"
  using assms
  by (auto simp: dumpfn_def Let_def split: sum.splits option.splits if_splits)

lemma dumpfn_headers:
  assumes "TarHeader h \<in> set (tw_out (tw (fst (dumpfn dp p d err s))))"
  shows "TarHeader h \<in> set (tw_out (tw s)) \<or> (Name h = p \<and> \<not> skipped p)"
proof (cases "tw_out (tw (fst (dumpfn dp p d err s))) = tw_out (tw s)")
  case True
  then show ?thesis using assms by simp
next
  case False
  obtain s' r where d: "dumpfn dp p d err s = (s', r)" by (cases "dumpfn dp p d err s")
  from dumpfn_emit[OF d] False d obtain de fi link where ns: "\<not> skipped p"
    and de: "dump_entry dp p de fi link s = (s', r)" by auto
  from dump_entry_cases[OF de] False d
  obtain h0 rest where out: "tw_out (tw s') = tw_out (tw s) @ TarHeader (entry_header p fi h0) # rest"
    and rest: "rest = [] \<or> (\<exists>b. rest = [TarData b])"
    by (auto split: if_splits)
  show ?thesis using assms d out rest ns by auto
qed

subsection \<open>The walker\<close>

lemma returned_errors_append [simp]:
  "returned_errors (xs @ ys) = returned_errors xs @ returned_errors ys"
  by (induction xs rule: returned_errors.induct) auto

lemma returned_errors_mem:
  "Returned p (Some e) \<in> set tr \<Longrightarrow> e \<in> set (returned_errors tr)"
  by (induction tr rule: returned_errors.induct) auto

lemma walk_post_Some: "walk_post P R (s, Some e) \<longleftrightarrow> R s e \<and> e \<noteq> SkipDir \<and> e \<noteq> SkipAll"
  by (simp add: walk_post_def)

lemma walk_post_None: "walk_post P R (s, None) \<longleftrightarrow> P s"
  by (simp add: walk_post_def)

text \<open>
  A rule for the walk: if every callback invocation the walker can make keeps \<open>P\<close> when
  it returns no error and establishes \<open>R\<close> with an error that is no skip signal, and
  recording a directory read keeps \<open>P\<close>, then the walk has the same property.
\<close>

lemma walk_rule:
  shows "(\<And>p d s. P s \<Longrightarrow> walk_post P R (invoke fn p d None s)) \<Longrightarrow>
         (\<And>p d opn pth en s. P s \<Longrightarrow> walk_post P R (invoke fn p d (Some (PathError opn pth en)) s)) \<Longrightarrow>
         (\<And>s t. P s \<Longrightarrow> P (s\<lparr>wtrace := wtrace s @ [ReadDirOp t]\<rparr>)) \<Longrightarrow>
         P s \<Longrightarrow> walk_post P R (walkDir fn name n s)"
    and "(\<And>p d s. P s \<Longrightarrow> walk_post P R (invoke fn p d None s)) \<Longrightarrow>
         (\<And>p d opn pth en s. P s \<Longrightarrow> walk_post P R (invoke fn p d (Some (PathError opn pth en)) s)) \<Longrightarrow>
         (\<And>s t. P s \<Longrightarrow> P (s\<lparr>wtrace := wtrace s @ [ReadDirOp t]\<rparr>)) \<Longrightarrow>
         P s \<Longrightarrow> walk_post P R (walkList fn name ns s)"
proof (induction fn name n s and fn name ns s rule: walkDir_walkList.induct)
  case (1 fn name d kids s)
  note a1 = "1.prems"(1) and a2 = "1.prems"(2) and a3 = "1.prems"(3)
  obtain s1 r1 where i1: "invoke fn name (Some d) None s = (s1, r1)"
    by (cases "invoke fn name (Some d) None s")
  have post1: "walk_post P R (s1, r1)"
    using a1[OF "1.prems"(4), of name "Some d"] i1 by simp
  show ?case
  proof (cases r1)
    case (Some e)
    then show ?thesis using i1 post1 by (simp add: walk_post_Some)
  next
    case None
    have P1: "P s1" using post1 None by (simp add: walk_post_None)
    show ?thesis
    proof (cases "de_isdir d")
      case False
      then show ?thesis using i1 None P1 by (simp add: walk_post_None)
    next
      case True
      define s2 where "s2 = s1\<lparr>wtrace := wtrace s1 @ [ReadDirOp name]\<rparr>"
      have P2: "P s2" unfolding s2_def using P1 by (rule a3)
      obtain s3 r3 where i3: "(case de_readdir d of None \<Rightarrow> (s2, None)
                   | Some en \<Rightarrow> invoke fn name (Some d) (Some (PathError ''readdir'' name en)) s2) = (s3, r3)"
        by (cases "(case de_readdir d of None \<Rightarrow> (s2, None)
                   | Some en \<Rightarrow> invoke fn name (Some d) (Some (PathError ''readdir'' name en)) s2)")
      have post3: "walk_post P R (s3, r3)"
      proof (cases "de_readdir d")
        case None
        then show ?thesis using i3 P2 by (auto simp: walk_post_None)
      next
        case (Some en)
        then show ?thesis using i3 a2[OF P2, of name "Some d" "''readdir''" name en] by simp
      qed
      have unfold: "walkDir fn name (Node d kids) s =
          (case r3 of Some e \<Rightarrow> (s3, Some e) | None \<Rightarrow> walkList fn name kids s3)"
        using i1 None True i3 post3
        by (auto simp: s2_def[symmetric] Let_def walk_post_Some split: option.splits)
      show ?thesis
      proof (cases r3)
        case (Some e)
        then show ?thesis using unfold post3 by simp
      next
        case N3: None
        have P3: "P s3" using post3 N3 by (simp add: walk_post_None)
        have "walk_post P R (walkList fn name kids s3)"
          using "1.IH"[OF i1[unfolded None, symmetric] refl _ s2_def i3[unfolded N3, symmetric] refl a1 a2 a3 P3] True
          by simp
        then show ?thesis using unfold N3 by simp
      qed
    qed
  qed
next
  case (2 fn name s)
  then show ?case by (simp add: walk_post_None)
next
  case (3 fn name d1 kids1 ds s)
  note a1 = "3.prems"(1) and a2 = "3.prems"(2) and a3 = "3.prems"(3)
  obtain s1 r1 where w1: "walkDir fn (path_Join name (de_name d1)) (Node d1 kids1) s = (s1, r1)"
    by (cases "walkDir fn (path_Join name (de_name d1)) (Node d1 kids1) s")
  have post1: "walk_post P R (s1, r1)"
    using "3.IH"(1)[OF a1 a2 a3 "3.prems"(4)] w1 by simp
  show ?case
  proof (cases r1)
    case (Some e)
    then show ?thesis using w1 post1 by (simp add: walk_post_Some)
  next
    case None
    have P1: "P s1" using post1 None by (simp add: walk_post_None)
    have "walk_post P R (walkList fn name ds s1)"
      using "3.IH"(2)[OF w1[unfolded None, symmetric] refl a1 a2 a3 P1] .
    then show ?thesis using w1 None by simp
  qed
qed

lemma WalkDir_rule:
  assumes a1: "\<And>p d s. P s \<Longrightarrow> walk_post P R (invoke fn p d None s)"
      and a2: "\<And>p d opn pth en s. P s \<Longrightarrow> walk_post P R (invoke fn p d (Some (PathError opn pth en)) s)"
      and a3: "\<And>s t. P s \<Longrightarrow> P (s\<lparr>wtrace := wtrace s @ [ReadDirOp t]\<rparr>)"
      and P: "P s"
  shows "walk_post P R (WalkDir fn fsys s)"
proof (cases fsys)
  case (StatFails en)
  obtain s1 r1 where i: "invoke fn ''.'' None (Some (PathError ''stat'' ''.'' en)) s = (s1, r1)"
    by (cases "invoke fn ''.'' None (Some (PathError ''stat'' ''.'' en)) s")
  from a2[OF P, of "''.''" None "''stat''" "''.''" en] i have "walk_post P R (s1, r1)" by simp
  then show ?thesis using StatFails i
    by (cases r1) (auto simp: WalkDir_def walk_post_def)
next
  case (Tree root)
  obtain s1 r1 where w: "walkDir fn ''.'' root s = (s1, r1)" by (cases "walkDir fn ''.'' root s")
  from walk_rule(1)[of P R fn, OF a1 a2 a3 P, of "''.''" root] w have "walk_post P R (s1, r1)" by simp
  then show ?thesis using Tree w
    by (cases r1) (auto simp: WalkDir_def walk_post_def)
qed

text \<open>The same for \<open>DumpDir\<close>: what holds of the state after the walk and of its error.\<close>

lemma invoke_dumpfn:
  assumes "invoke (dumpfn dp) p d err s = (s1, r)"
  obtains s0 where "dumpfn dp p d err (s\<lparr>wtrace := wtrace s @ [Visit p err]\<rparr>) = (s0, r)"
    and "s1 = s0\<lparr>wtrace := wtrace s @ [Visit p err, Returned p r]\<rparr>"
proof -
  obtain s0 r0 where d: "dumpfn dp p d err (s\<lparr>wtrace := wtrace s @ [Visit p err]\<rparr>) = (s0, r0)"
    by (cases "dumpfn dp p d err (s\<lparr>wtrace := wtrace s @ [Visit p err]\<rparr>)")
  have "wtrace s0 = wtrace s @ [Visit p err]"
    using dumpfn_wtrace[of dp p d err "s\<lparr>wtrace := wtrace s @ [Visit p err]\<rparr>"] d by simp
  then show ?thesis using that[of s0] assms d by (auto simp: invoke_def)
qed

lemma invoke_dumpfn_noskip:
  assumes "invoke (dumpfn dp) p d err s = (s1, Some e)"
    and "err = None \<or> (\<exists>opn pth en. err = Some (PathError opn pth en))"
  shows "e \<noteq> SkipDir \<and> e \<noteq> SkipAll"
proof -
  from invoke_dumpfn[OF assms(1)] obtain s0 where
    "dumpfn dp p d err (s\<lparr>wtrace := wtrace s @ [Visit p err]\<rparr>) = (s0, Some e)" by blast
  then have "snd (dumpfn dp p d err (s\<lparr>wtrace := wtrace s @ [Visit p err]\<rparr>)) = Some e" by simp
  from dumpfn_error_shape[OF this] assms(2) show ?thesis by auto
qed


lemma errors_walk:
  assumes "returned_errors (wtrace s) = []"
  shows "walk_post (\<lambda>s. returned_errors (wtrace s) = []) (\<lambda>s e. returned_errors (wtrace s) = [e])
           (WalkDir (dumpfn dp) fsys s)"
proof -
  let ?P = "\<lambda>s::dstate. returned_errors (wtrace s) = []"
  let ?R = "\<lambda>(s::dstate) e. returned_errors (wtrace s) = [e]"
  have step: "walk_post ?P ?R (invoke (dumpfn dp) p d err s)"
    if P: "?P s" and ok: "err = None \<or> (\<exists>opn pth en. err = Some (PathError opn pth en))" for p d err s
  proof -
    obtain s1 r where i: "invoke (dumpfn dp) p d err s = (s1, r)" by (cases "invoke (dumpfn dp) p d err s")
    from invoke_dumpfn[OF i] obtain s0 where s1: "s1 = s0\<lparr>wtrace := wtrace s @ [Visit p err, Returned p r]\<rparr>" by blast
    show ?thesis
      using i s1 P invoke_dumpfn_noskip[of dp p d err s s1] ok
      by (cases r) (auto simp: walk_post_def)
  qed
  show ?thesis
  proof (rule WalkDir_rule[where P = ?P and R = ?R])
    show "?P s" by (rule assms)
  qed (auto intro: step)
qed

text \<open>An error returned by any callback invocation is the error of the whole dump.\<close>

lemma DumpDir_abort:
  assumes "Returned p (Some e) \<in> set (wtrace (fst (DumpDir w dp fsys)))"
  shows "snd (DumpDir w dp fsys) = Some (Wrapped ''error dumping dir'' e)"
proof -
  let ?s0 = "\<lparr>tw = tar_NewWriter w, logs = [], opened = [], wtrace = []\<rparr>"
  obtain s1 r1 where wd: "WalkDir (dumpfn dp) fsys ?s0 = (s1, r1)" by (cases "WalkDir (dumpfn dp) fsys ?s0")
  have post: "walk_post (\<lambda>s. returned_errors (wtrace s) = []) (\<lambda>s e. returned_errors (wtrace s) = [e]) (s1, r1)"
    using errors_walk[of ?s0 dp fsys] wd by simp
  have tr: "wtrace (fst (DumpDir w dp fsys)) = wtrace s1"
    using wd by (auto simp: DumpDir_def split: option.splits prod.splits)
  have mem: "e \<in> set (returned_errors (wtrace s1))"
    using returned_errors_mem assms tr by metis
  show ?thesis
  proof (cases r1)
    case None
    then show ?thesis using post mem by (simp add: walk_post_def)
  next
    case (Some e1)
    then have "e1 = e" using post mem by (simp add: walk_post_def)
    then show ?thesis using wd Some by (simp add: DumpDir_def)
  qed
qed

text \<open>Every header in the archive carries the path of a node that is not skipped.\<close>

lemma names_walk:
  assumes "\<forall>h. TarHeader h \<in> set (tw_out (tw s)) \<longrightarrow> \<not> skipped (Name h)"
  shows "walk_post (\<lambda>s. \<forall>h. TarHeader h \<in> set (tw_out (tw s)) \<longrightarrow> \<not> skipped (Name h))
                   (\<lambda>s e. \<forall>h. TarHeader h \<in> set (tw_out (tw s)) \<longrightarrow> \<not> skipped (Name h))
           (WalkDir (dumpfn dp) fsys s)"
proof -
  let ?P = "\<lambda>s::dstate. \<forall>h. TarHeader h \<in> set (tw_out (tw s)) \<longrightarrow> \<not> skipped (Name h)"
  have step: "walk_post ?P (\<lambda>s e. ?P s) (invoke (dumpfn dp) p d err s)"
    if P: "?P s" and ok: "err = None \<or> (\<exists>opn pth en. err = Some (PathError opn pth en))" for p d err s
  proof -
    obtain s1 r where i: "invoke (dumpfn dp) p d err s = (s1, r)" by (cases "invoke (dumpfn dp) p d err s")
    from invoke_dumpfn[OF i] obtain s0 where d: "dumpfn dp p d err (s\<lparr>wtrace := wtrace s @ [Visit p err]\<rparr>) = (s0, r)"
      and s1: "s1 = s0\<lparr>wtrace := wtrace s @ [Visit p err, Returned p r]\<rparr>" by blast
    have "?P s0"
    proof (intro allI impI)
      fix h assume "TarHeader h \<in> set (tw_out (tw s0))"
      then have "TarHeader h \<in> set (tw_out (tw (fst (dumpfn dp p d err (s\<lparr>wtrace := wtrace s @ [Visit p err]\<rparr>)))))"
        using d by simp
      from dumpfn_headers[OF this] P show "\<not> skipped (Name h)" by auto
    qed
    then have "?P s1" using s1 by simp
    then show ?thesis using i invoke_dumpfn_noskip[of dp p d err s s1] ok
      by (cases r) (auto simp: walk_post_def)
  qed
  show ?thesis
  proof (rule WalkDir_rule[where P = ?P and R = "\<lambda>s e. ?P s"])
    show "?P s" by (rule assms)
  next
    fix p d s assume "?P s"
    then show "walk_post ?P (\<lambda>s e. ?P s) (invoke (dumpfn dp) p d None s)" by (rule step) simp
  next
    fix p d opn pth en s assume "?P s"
    then show "walk_post ?P (\<lambda>s e. ?P s) (invoke (dumpfn dp) p d (Some (PathError opn pth en)) s)"
      by (rule step) simp
  next
    fix s t assume "?P s"
    then show "?P (s\<lparr>wtrace := wtrace s @ [ReadDirOp t]\<rparr>)" by simp
  qed
qed

lemma DumpDir_headers:
  assumes "TarHeader h \<in> set (tw_out (tw (fst (DumpDir w dp fsys))))"
  shows "\<not> skipped (Name h)"
proof -
  let ?s0 = "\<lparr>tw = tar_NewWriter w, logs = [], opened = [], wtrace = []\<rparr>"
  obtain s1 r1 where wd: "WalkDir (dumpfn dp) fsys ?s0 = (s1, r1)" by (cases "WalkDir (dumpfn dp) fsys ?s0")
  have "\<forall>h. TarHeader h \<in> set (tw_out (tw ?s0)) \<longrightarrow> \<not> skipped (Name h)"
    by (simp add: tar_NewWriter_def)
  from names_walk[OF this, of dp fsys] wd
  have P1: "\<forall>h. TarHeader h \<in> set (tw_out (tw s1)) \<longrightarrow> \<not> skipped (Name h)"
    by (cases r1) (auto simp: walk_post_def)
  have "TarHeader h \<in> set (tw_out (tw s1))"
  proof (cases r1)
    case None
    then show ?thesis using assms wd tar_Close_out[of h "tw s1"]
      by (auto simp: DumpDir_def split: prod.splits)
  next
    case (Some e)
    then show ?thesis using assms wd by (simp add: DumpDir_def)
  qed
  then show ?thesis using P1 by blast
qed

lemma skipped_returns_walk:
  assumes "\<forall>q e. Returned q (Some e) \<in> set (wtrace s) \<longrightarrow> \<not> skipped q"
  shows "walk_post (\<lambda>s::dstate. \<forall>q e. Returned q (Some e) \<in> set (wtrace s) \<longrightarrow> \<not> skipped q)
                   (\<lambda>(s::dstate) e0. \<forall>q e. Returned q (Some e) \<in> set (wtrace s) \<longrightarrow> \<not> skipped q)
           (WalkDir (dumpfn dp) fsys s)"
proof -
  let ?P = "\<lambda>s::dstate. \<forall>q e. Returned q (Some e) \<in> set (wtrace s) \<longrightarrow> \<not> skipped q"
  have step: "walk_post ?P (\<lambda>s e. ?P s) (invoke (dumpfn dp) p d err s)"
    if P: "?P s" and ok: "err = None \<or> (\<exists>opn pth en. err = Some (PathError opn pth en))" for p d err s
  proof -
    obtain s1 r where i: "invoke (dumpfn dp) p d err s = (s1, r)" by (cases "invoke (dumpfn dp) p d err s")
    from invoke_dumpfn[OF i] obtain s0 where d: "dumpfn dp p d err (s\<lparr>wtrace := wtrace s @ [Visit p err]\<rparr>) = (s0, r)"
      and s1: "s1 = s0\<lparr>wtrace := wtrace s @ [Visit p err, Returned p r]\<rparr>" by blast
    have "skipped p \<Longrightarrow> r = None" using d dumpfn_skipped[of p dp d err] by simp
    then have "?P s1" using s1 P by auto
    then show ?thesis using i invoke_dumpfn_noskip[of dp p d err s s1] ok
      by (cases r) (auto simp: walk_post_def)
  qed
  show ?thesis
  proof (rule WalkDir_rule[where P = ?P and R = "\<lambda>s e. ?P s"])
    show "?P s" by (rule assms)
  next
    fix p d s assume "?P s"
    then show "walk_post ?P (\<lambda>s e. ?P s) (invoke (dumpfn dp) p d None s)" by (rule step) simp
  next
    fix p d opn pth en s assume "?P s"
    then show "walk_post ?P (\<lambda>s e. ?P s) (invoke (dumpfn dp) p d (Some (PathError opn pth en)) s)"
      by (rule step) simp
  next
    fix s t assume "?P s"
    then show "?P (s\<lparr>wtrace := wtrace s @ [ReadDirOp t]\<rparr>)" by simp
  qed
qed

lemma DumpDir_wtrace:
  "wtrace (fst (DumpDir w dp fsys)) =
     wtrace (fst (WalkDir (dumpfn dp) fsys \<lparr>tw = tar_NewWriter w, logs = [], opened = [], wtrace = []\<rparr>))"
  by (auto simp: DumpDir_def split: option.splits prod.splits)

lemma DumpDir_skipped_returns:
  assumes "Returned q (Some e) \<in> set (wtrace (fst (DumpDir w dp fsys)))"
  shows "\<not> skipped q"
proof -
  let ?s0 = "\<lparr>tw = tar_NewWriter w, logs = [], opened = [], wtrace = []\<rparr>"
  obtain s1 r1 where wd: "WalkDir (dumpfn dp) fsys ?s0 = (s1, r1)" by (cases "WalkDir (dumpfn dp) fsys ?s0")
  have "\<forall>q e. Returned q (Some e) \<in> set (wtrace ?s0) \<longrightarrow> \<not> skipped q" by simp
  from skipped_returns_walk[OF this, of dp fsys] wd
  have "\<forall>q e. Returned q (Some e) \<in> set (wtrace s1) \<longrightarrow> \<not> skipped q"
    by (cases r1) (auto simp: walk_post_def)
  then show ?thesis using assms wd by (auto simp: DumpDir_wtrace)
qed

lemma dumpfn_symlink_emit:
  assumes info: "de_info de = Inr fi" and m: "fi_mode fi AND ModeType = ModeSymlink"
    and d: "dumpfn dp p (Some de) err s = (s', r)"
    and out: "tw_out (tw s') = tw_out (tw s) @ TarHeader h # rest"
  shows "case de_readlink de of
           Inr t \<Rightarrow> Linkname h = t
         | Inl en \<Rightarrow> errno_Is en ErrPermission \<and> Linkname h = ''permission denied''"
proof -
  have ne: "tw_out (tw s') \<noteq> tw_out (tw s)" using out by simp
  from dumpfn_emit[OF d ne] info obtain link where
    de: "dump_entry dp p de fi link s = (s', r)"
    and lk: "fi_mode fi AND ModeSymlink \<noteq> 0 \<longrightarrow>
                  (case de_readlink de of Inr t \<Rightarrow> link = t
                   | Inl en \<Rightarrow> errno_Is en ErrPermission \<and> link = ''permission denied'')"
    by auto
  from dump_entry_cases[OF de] ne obtain h0 rest0 where
    h0: "tar_FileInfoHeader fi link = Inr h0"
    and o: "tw_out (tw s') = tw_out (tw s) @ TarHeader (entry_header p fi h0) # rest0"
    by auto
  have "h = entry_header p fi h0" using o out by simp
  then have "Linkname h = link" using symlink_header_Linkname[OF h0 m] by simp
  then show ?thesis using lk symlink_mode(1)[OF m] by (auto split: sum.splits)
qed

lemma dump_entry_symlink_healthy:
  assumes m: "fi_mode fi AND ModeType = ModeSymlink"
    and w: "tw_err (tw s) = None" "tw_curr (tw s) \<le> 0" "tw_sink (tw s) \<noteq> Some 0"
  shows "snd (dump_entry dp p de fi link s) = None
       \<and> (\<exists>h. tw_out (tw (fst (dump_entry dp p de fi link s))) = tw_out (tw s) @ [TarHeader h]
              \<and> Linkname h = link \<and> Name h = p)"
proof -
  from symlink_header_ok[OF m] obtain h0 where h0: "tar_FileInfoHeader fi link = Inr h0" by blast
  let ?hdr = "entry_header p fi h0"
  obtain w1 r1 where wh: "tar_WriteHeader ?hdr (tw s) = (w1, r1)" by (cases "tar_WriteHeader ?hdr (tw s)")
  have "r1 = None" using tar_WriteHeader_healthy[OF w, of ?hdr] wh by simp
  then have wh': "tar_WriteHeader ?hdr (tw s) = (w1, None)" and o: "tw_out w1 = tw_out (tw s) @ [TarHeader ?hdr]"
    using wh tar_WriteHeader_cases[OF wh] by auto
  have res: "dump_entry dp p de fi link s = (s\<lparr>tw := w1\<rparr>, None)"
    using h0 wh' symlink_mode(3)[OF m] by (simp add: dump_entry_def)
  show ?thesis using res o symlink_header_Linkname[OF h0 m] by simp
qed

subsection \<open>The handler\<close>

lemma producer_task_Return:
  "producer_task fsys pipeW =
     (case snd (DumpDir None ''/'' fsys) of
        Some e \<Rightarrow> Return (fst (DumpDir None ''/'' fsys), [GzipClose, PipeCloseWithError e],
                         pipe_CloseWithError (Some e) pipeW, Some e)
      | None \<Rightarrow> Return (fst (DumpDir None ''/'' fsys), [GzipClose, PipeClose],
                       pipe_Close pipeW, None))"
  by (simp add: producer_task_def gzip_NewWriterLevel_def BestSpeed_def HuffmanOnly_def
      BestCompression_def split: prod.splits option.splits)

lemma pipeline_eq:
  "pipeline W c =
     Return (errg_Wait (if upload_first W
                        then [snd (PutObject W c (getenv W ''BUCKET'') (''go/'' @ now_rfc3339 W @ ''/dump.tar.gz'')),
                              snd (DumpDir None ''/'' (root_fs W))]
                        else [snd (DumpDir None ''/'' (root_fs W)),
                              snd (PutObject W c (getenv W ''BUCKET'') (''go/'' @ now_rfc3339 W @ ''/dump.tar.gz''))]),
             fst (PutObject W c (getenv W ''BUCKET'') (''go/'' @ now_rfc3339 W @ ''/dump.tar.gz'')))"
  by (simp add: pipeline_def producer_task_Return split: prod.splits option.splits)

lemma pipeline_Return:
  "\<exists>err putInfo. pipeline W c = Return (err, putInfo)"
  by (simp add: pipeline_eq)

lemma getSecret_log:
  assumes "getSecret W = (lg, Inr secrets)"
  shows "\<exists>l. lg = [Log l]"
  using assms by (auto simp: getSecret_def Let_def split: sum.splits)






section \<open>Claims about \<^verbatim>\<open>DumpDir\<close>\<close>

text \<open>
  C1 (as amended). A node whose path relative to the walk root starts with \<^verbatim>\<open>dev/\<close>,
  \<^verbatim>\<open>proc/\<close> or \<^verbatim>\<open>sys/\<close> produces no archive entry: the callback returns nil at once,
  leaving the archive, the log and the set of opened files as they were, and no header
  in the stream written by \<^verbatim>\<open>DumpDir\<close> bears such a path. (The callback returns nil,
  not \<^verbatim>\<open>fs.SkipDir\<close>, so the walker still reads such a directory and visits its
  children; see the counterexample.)
\<close>

theorem virtual_paths_emit_nothing:
  assumes "strings_HasPrefix p ''dev/'' \<or> strings_HasPrefix p ''proc/'' \<or> strings_HasPrefix p ''sys/''"
  shows "dumpfn dumpPath p d err s = (s, None)
       \<and> (\<forall>w fsys h. TarHeader h \<in> set (tw_out (tw (fst (DumpDir w dumpPath fsys)))) \<longrightarrow> Name h \<noteq> p)"
proof -
  have sk: "skipped p" using assms by (auto simp: skipped_def)
  then have "dumpfn dumpPath p d err s = (s, None)" by (rule dumpfn_skipped)
  moreover have "Name h \<noteq> p" if "TarHeader h \<in> set (tw_out (tw (fst (DumpDir w dumpPath fsys))))" for w fsys h
    using DumpDir_headers[OF that] sk by auto
  ultimately show ?thesis by blast
qed

text \<open>The theorem at the file \<^verbatim>\<open>dev/shm/x\<close> of a small tree.\<close>

theorem virtual_paths_emit_nothing_witness:
  "strings_HasPrefix ''dev/shm/x'' ''dev/''
   \<and> dumpfn ''/'' ''dev/shm/x'' (Some (file_entry ''x'' 420 [7])) None init_state = (init_state, None)
   \<and> TarHeader \<lparr>Typeflag = TypeReg, Name = ''dev/shm/x'', Linkname = '''', Size = 1, Mode = 420, ModTime = 0\<rparr>
        \<notin> set (tw_out (tw (fst (DumpDir None ''/'' fs_virtual))))"
proof -
  have h: "strings_HasPrefix ''dev/shm/x'' ''dev/''" by (simp add: strings_HasPrefix_def)
  then have h': "strings_HasPrefix ''dev/shm/x'' ''dev/'' \<or> strings_HasPrefix ''dev/shm/x'' ''proc/'' \<or> strings_HasPrefix ''dev/shm/x'' ''sys/''"
    by simp
  note t = virtual_paths_emit_nothing[OF h', of "''/''" "Some (file_entry ''x'' 420 [7])" None init_state]
  from t have a: "dumpfn ''/'' ''dev/shm/x'' (Some (file_entry ''x'' 420 [7])) None init_state = (init_state, None)"
    by (rule conjunct1)
  from t have b: "TarHeader x \<in> set (tw_out (tw (fst (DumpDir None ''/'' fs_virtual)))) \<Longrightarrow> Name x \<noteq> ''dev/shm/x''" for x
    by blast
  have "TarHeader \<lparr>Typeflag = TypeReg, Name = ''dev/shm/x'', Linkname = '''', Size = 1, Mode = 420, ModTime = 0\<rparr>
        \<notin> set (tw_out (tw (fst (DumpDir None ''/'' fs_virtual))))"
    using b by force
  then show ?thesis using h a by simp
qed

text \<open>
  C1 as stated fails: \<^verbatim>\<open>dev/shm\<close> starts with \<^verbatim>\<open>dev/\<close>, yet the walker reads that
  directory and the callback is invoked on its child \<^verbatim>\<open>dev/shm/x\<close>.
\<close>

theorem virtual_paths_descended_counterexample:
  "strings_HasPrefix ''dev/shm'' ''dev/''
   \<and> ReadDirOp ''dev/shm'' \<in> set (wtrace (fst (DumpDir None ''/'' fs_virtual)))
   \<and> Visit ''dev/shm/x'' None \<in> set (wtrace (fst (DumpDir None ''/'' fs_virtual)))"
  by code_simp

text \<open>
  C9. When the path given to the callback begins with \<^verbatim>\<open>dev/\<close>, \<^verbatim>\<open>proc/\<close> or
  \<^verbatim>\<open>sys/\<close>, or is the root \<^verbatim>\<open>"."\<close>, the callback returns nil before it looks at
  the walk error: whatever the entry and whatever the error, it returns nil and changes
  nothing. So no invocation at such a path ever returns an error during a dump, and a
  root that cannot be examined leaves \<^verbatim>\<open>DumpDir\<close> with the result of closing the
  archive, not with an aborted walk.
\<close>

theorem skipped_path_ignores_walk_error:
  assumes "strings_HasPrefix p ''dev/'' \<or> strings_HasPrefix p ''proc/''
           \<or> strings_HasPrefix p ''sys/'' \<or> p = ''.''"
  shows "dumpfn dumpPath p d err s = (s, None)
       \<and> (\<forall>w fsys e. Returned p (Some e) \<notin> set (wtrace (fst (DumpDir w dumpPath fsys))))
       \<and> (\<forall>w en. snd (DumpDir w dumpPath (StatFails en)) = snd (tar_Close (tar_NewWriter w)))"
proof -
  have sk: "skipped p" using assms by (simp add: skipped_def)
  have 1: "dumpfn dumpPath p d err s = (s, None)" using sk by (rule dumpfn_skipped)
  have 2: "Returned p (Some e) \<notin> set (wtrace (fst (DumpDir w dumpPath fsys)))" for w fsys e
    using DumpDir_skipped_returns[of p e w dumpPath fsys] sk by blast
  have 3: "snd (DumpDir w dumpPath (StatFails en)) = snd (tar_Close (tar_NewWriter w))" for w en
    by (simp add: DumpDir_def WalkDir_def invoke_def dumpfn_def skipped_def split: prod.splits)
  show ?thesis using 1 2 3 by blast
qed

text \<open>The theorem at a directory under \<^verbatim>\<open>proc/\<close> whose listing fails, and at a root whose
  \<^verbatim>\<open>Stat\<close> fails with an I/O error.\<close>

theorem skipped_path_ignores_walk_error_witness:
  "strings_HasPrefix ''proc/1'' ''proc/''
   \<and> dumpfn ''/'' ''proc/1'' (Some (dir_entry ''1'')) (Some (PathError ''readdir'' ''proc/1'' (EOTHER ''no such process''))) init_state
       = (init_state, None)
   \<and> snd (DumpDir None ''/'' (StatFails (EOTHER ''input/output error''))) = None"
proof -
  have h: "strings_HasPrefix ''proc/1'' ''proc/''" by (simp add: strings_HasPrefix_def)
  then have h': "strings_HasPrefix ''proc/1'' ''dev/'' \<or> strings_HasPrefix ''proc/1'' ''proc/''
           \<or> strings_HasPrefix ''proc/1'' ''sys/'' \<or> ''proc/1'' = ''.''" by simp
  note t = skipped_path_ignores_walk_error[OF h', of "''/''" "Some (dir_entry ''1'')"
      "Some (PathError ''readdir'' ''proc/1'' (EOTHER ''no such process''))" init_state]
  from t have a: "dumpfn ''/'' ''proc/1'' (Some (dir_entry ''1'')) (Some (PathError ''readdir'' ''proc/1'' (EOTHER ''no such process''))) init_state
       = (init_state, None)" by (rule conjunct1)
  from t have "snd (DumpDir None ''/'' (StatFails (EOTHER ''input/output error''))) = snd (tar_Close (tar_NewWriter None))"
    by blast
  then have b: "snd (DumpDir None ''/'' (StatFails (EOTHER ''input/output error''))) = None"
    by (simp add: tar_Close_def tar_NewWriter_def tar_sink_def)
  show ?thesis using h a b by simp
qed

text \<open>
  C4 (as amended). For a node outside the skipped paths: when \<^verbatim>\<open>d.Info()\<close> fails with a
  does-not-exist error, the callback logs \<^verbatim>\<open><path>: not exists\<close>, returns nil and
  emits no entry; when it fails with any other error, permission denied included, the
  callback returns the error wrapped as \<^verbatim>\<open>error getting file info\<close>. Permission
  denied is tolerated only in the walk-error argument (a directory whose listing
  failed): the callback then goes on exactly as if no error had been reported; any
  other walk error is returned as it is. An error returned by any callback invocation
  aborts the walk: \<^verbatim>\<open>DumpDir\<close> returns it wrapped as \<^verbatim>\<open>error dumping dir\<close>.
\<close>

theorem metadata_error_policy:
  assumes "\<not> skipped p"
  shows "(\<forall>de en. de_info de = Inl en \<and> errno_Is en ErrNotExist \<longrightarrow>
            dumpfn dumpPath p (Some de) None s
              = (s\<lparr>logs := logs s @ [path_Join dumpPath p @ '': not exists'']\<rparr>, None))
       \<and> (\<forall>de en. de_info de = Inl en \<and> \<not> errno_Is en ErrNotExist \<longrightarrow>
            dumpfn dumpPath p (Some de) None s
              = (s, Some (Wrapped ''error getting file info'' (PathError ''lstat'' (path_Join dumpPath p) en))))
       \<and> (\<forall>d e. errors_Is e ErrPermission \<longrightarrow>
            dumpfn dumpPath p d (Some e) s = dumpfn dumpPath p d None s)
       \<and> (\<forall>d e. \<not> errors_Is e ErrPermission \<longrightarrow> dumpfn dumpPath p d (Some e) s = (s, Some e))
       \<and> (\<forall>w fsys q e. Returned q (Some e) \<in> set (wtrace (fst (DumpDir w dumpPath fsys))) \<longrightarrow>
            snd (DumpDir w dumpPath fsys) = Some (Wrapped ''error dumping dir'' e))"
proof -
  have 1: "dumpfn dumpPath p (Some de) None s
              = (s\<lparr>logs := logs s @ [path_Join dumpPath p @ '': not exists'']\<rparr>, None)"
    if "de_info de = Inl en" "errno_Is en ErrNotExist" for de en
    using that assms by (simp add: dumpfn_def)
  have 2: "dumpfn dumpPath p (Some de) None s
              = (s, Some (Wrapped ''error getting file info'' (PathError ''lstat'' (path_Join dumpPath p) en)))"
    if "de_info de = Inl en" "\<not> errno_Is en ErrNotExist" for de en
    using that assms by (simp add: dumpfn_def)
  have 3: "dumpfn dumpPath p d (Some e) s = dumpfn dumpPath p d None s"
    if "errors_Is e ErrPermission" for d e
    using that by (simp add: dumpfn_def)
  have 4: "dumpfn dumpPath p d (Some e) s = (s, Some e)"
    if "\<not> errors_Is e ErrPermission" for d e
    using that assms by (simp add: dumpfn_def)
  have 5: "snd (DumpDir w dumpPath fsys) = Some (Wrapped ''error dumping dir'' e)"
    if "Returned q (Some e) \<in> set (wtrace (fst (DumpDir w dumpPath fsys)))" for w fsys q e
    using that by (rule DumpDir_abort)
  show ?thesis using 1 2 3 4 5 by blast
qed

text \<open>The theorem at a vanished file, at a file whose metadata cannot be read for an
  I/O error, and on a tree with a file whose metadata is denied.\<close>

theorem metadata_error_policy_witness:
  "\<not> skipped ''gone''
   \<and> dumpfn ''/'' ''gone'' (Some ((file_entry ''gone'' 420 [])\<lparr>de_info := Inl ENOENT\<rparr>)) None init_state
       = (init_state\<lparr>logs := [''/gone: not exists'']\<rparr>, None)
   \<and> dumpfn ''/'' ''gone'' (Some ((file_entry ''gone'' 420 [])\<lparr>de_info := Inl (EOTHER ''input/output error'')\<rparr>)) None init_state
       = (init_state, Some (Wrapped ''error getting file info''
                              (PathError ''lstat'' ''/gone'' (EOTHER ''input/output error''))))
   \<and> snd (DumpDir None ''/'' fs_noperm)
       = Some (Wrapped ''error dumping dir''
                (Wrapped ''error getting file info'' (PathError ''lstat'' ''/secret'' EACCES)))"
proof -
  have h: "\<not> skipped ''gone''" by (simp add: skipped_def strings_HasPrefix_def)
  note t = metadata_error_policy[OF h, of "''/''" init_state]
  have i1: "de_info ((file_entry ''gone'' 420 [])\<lparr>de_info := Inl ENOENT\<rparr>) = Inl ENOENT \<and> errno_Is ENOENT ErrNotExist"
    by simp
  have i2: "de_info ((file_entry ''gone'' 420 [])\<lparr>de_info := Inl (EOTHER ''input/output error'')\<rparr>) = Inl (EOTHER ''input/output error'')
            \<and> \<not> errno_Is (EOTHER ''input/output error'') ErrNotExist"
    by simp
  from t i1 have a: "dumpfn ''/'' ''gone'' (Some ((file_entry ''gone'' 420 [])\<lparr>de_info := Inl ENOENT\<rparr>)) None init_state
       = (init_state\<lparr>logs := logs init_state @ [path_Join ''/'' ''gone'' @ '': not exists'']\<rparr>, None)"
    by blast
  from t i2 have b: "dumpfn ''/'' ''gone'' (Some ((file_entry ''gone'' 420 [])\<lparr>de_info := Inl (EOTHER ''input/output error'')\<rparr>)) None init_state
       = (init_state, Some (Wrapped ''error getting file info''
                              (PathError ''lstat'' (path_Join ''/'' ''gone'') (EOTHER ''input/output error''))))"
    by blast
  have m: "Returned ''secret'' (Some (Wrapped ''error getting file info'' (PathError ''lstat'' ''/secret'' EACCES)))
            \<in> set (wtrace (fst (DumpDir None ''/'' fs_noperm)))"
    by code_simp
  from t m have c: "snd (DumpDir None ''/'' fs_noperm)
       = Some (Wrapped ''error dumping dir''
                (Wrapped ''error getting file info'' (PathError ''lstat'' ''/secret'' EACCES)))"
    by blast
  show ?thesis using h a b c by (simp add: path_Join_def init_state_def)
qed

text \<open>
  C4 as stated fails: \<^verbatim>\<open>d.Info()\<close> of \<^verbatim>\<open>secret\<close> fails with permission denied, and
  the walk does not log and continue: \<^verbatim>\<open>DumpDir\<close> returns the wrapped error, nothing
  is logged, and the next file is never visited.
\<close>

theorem metadata_permission_denied_counterexample:
  "de_info ((file_entry ''secret'' 420 [])\<lparr>de_info := Inl EACCES\<rparr>) = Inl EACCES
   \<and> errno_Is EACCES ErrPermission
   \<and> snd (DumpDir None ''/'' fs_noperm)
       = Some (Wrapped ''error dumping dir''
                (Wrapped ''error getting file info'' (PathError ''lstat'' ''/secret'' EACCES)))
   \<and> logs (fst (DumpDir None ''/'' fs_noperm)) = []
   \<and> Visit ''z.txt'' None \<notin> set (wtrace (fst (DumpDir None ''/'' fs_noperm)))"
  by code_simp

text \<open>
  C5. For a symlink node (the type bits of its mode are exactly \<^verbatim>\<open>ModeSymlink\<close>):
  whenever the callback emits an entry for it, the entry's link name is the target
  \<^verbatim>\<open>os.Readlink\<close> returned, or, when \<^verbatim>\<open>os.Readlink\<close> failed, the failure was
  permission denied and the link name is the literal \<^verbatim>\<open>permission denied\<close>; in that
  case the walk continues (a healthy tar writer takes the header and the callback
  returns nil). Any other \<^verbatim>\<open>os.Readlink\<close> error makes the callback return it wrapped
  as \<^verbatim>\<open>error reading link\<close> without emitting anything, and an error returned by a
  callback invocation aborts the whole walk.
\<close>

theorem symlink_target_policy:
  assumes "de_info de = Inr fi" and "fi_mode fi AND ModeType = ModeSymlink"
  shows "(\<forall>s' r h rest.
            dumpfn dumpPath p (Some de) err s = (s', r)
            \<and> tw_out (tw s') = tw_out (tw s) @ TarHeader h # rest \<longrightarrow>
              (case de_readlink de of
                 Inr target \<Rightarrow> Linkname h = target
               | Inl en \<Rightarrow> errno_Is en ErrPermission \<and> Linkname h = ''permission denied''))
       \<and> (\<forall>en. de_readlink de = Inl en \<and> errno_Is en ErrPermission \<and> \<not> skipped p \<and> err = None
                 \<and> tw_err (tw s) = None \<and> tw_curr (tw s) \<le> 0 \<and> tw_sink (tw s) \<noteq> Some 0 \<longrightarrow>
              snd (dumpfn dumpPath p (Some de) err s) = None
              \<and> (\<exists>h. tw_out (tw (fst (dumpfn dumpPath p (Some de) err s))) = tw_out (tw s) @ [TarHeader h]
                     \<and> Linkname h = ''permission denied'' \<and> Name h = p))
       \<and> (\<forall>en. de_readlink de = Inl en \<and> \<not> errno_Is en ErrPermission \<and> \<not> skipped p \<and> err = None \<longrightarrow>
              dumpfn dumpPath p (Some de) err s
                = (s, Some (Wrapped ''error reading link'' (PathError ''readlink'' (path_Join dumpPath p) en))))
       \<and> (\<forall>w fsys q e. Returned q (Some e) \<in> set (wtrace (fst (DumpDir w dumpPath fsys))) \<longrightarrow>
              snd (DumpDir w dumpPath fsys) = Some (Wrapped ''error dumping dir'' e))"
proof -
  note sl = symlink_mode(1)[OF assms(2)]
  have 1: "case de_readlink de of
                 Inr target \<Rightarrow> Linkname h = target
               | Inl en \<Rightarrow> errno_Is en ErrPermission \<and> Linkname h = ''permission denied''"
    if "dumpfn dumpPath p (Some de) err s = (s', r)"
       "tw_out (tw s') = tw_out (tw s) @ TarHeader h # rest" for s' r h rest
    using dumpfn_symlink_emit[OF assms that] .
  have 2: "snd (dumpfn dumpPath p (Some de) err s) = None
              \<and> (\<exists>h. tw_out (tw (fst (dumpfn dumpPath p (Some de) err s))) = tw_out (tw s) @ [TarHeader h]
                     \<and> Linkname h = ''permission denied'' \<and> Name h = p)"
    if "de_readlink de = Inl en" "errno_Is en ErrPermission" "\<not> skipped p" "err = None"
       "tw_err (tw s) = None" "tw_curr (tw s) \<le> 0" "tw_sink (tw s) \<noteq> Some 0" for en
  proof -
    have "dumpfn dumpPath p (Some de) err s = dump_entry dumpPath p de fi ''permission denied'' s"
      using that(1-4) assms(1) sl by (simp add: dumpfn_def)
    then show ?thesis
      using dump_entry_symlink_healthy[OF assms(2) that(5-7), of dumpPath p de "''permission denied''"]
      by simp
  qed
  have 3: "dumpfn dumpPath p (Some de) err s
                = (s, Some (Wrapped ''error reading link'' (PathError ''readlink'' (path_Join dumpPath p) en)))"
    if "de_readlink de = Inl en" "\<not> errno_Is en ErrPermission" "\<not> skipped p" "err = None" for en
    using that assms(1) sl by (simp add: dumpfn_def)
  have 4: "snd (DumpDir w dumpPath fsys) = Some (Wrapped ''error dumping dir'' e)"
    if "Returned q (Some e) \<in> set (wtrace (fst (DumpDir w dumpPath fsys)))" for w fsys q e
    using that by (rule DumpDir_abort)
  show ?thesis
    apply (intro conjI allI impI)
    subgoal for s' r h rest using 1[of s' r h rest] by blast
    subgoal for en using 2[of en] by simp
    subgoal for en using 2[of en] by simp
    subgoal for en using 3[of en] by blast
    subgoal for w fsys q e using 4[of q e w fsys] by blast
    done
qed

text \<open>The theorem on a tree with a readable link and a link whose target is denied, and
  on a tree with a link whose target cannot be read for an I/O error.\<close>

theorem symlink_target_policy_witness:
  "de_info (link_entry ''link'' (Inr ''a.txt'')) = Inr \<lparr>fi_name = ''link'', fi_size = 0, fi_mode = ModeSymlink OR 511, fi_modtime = 0\<rparr>
   \<and> (ModeSymlink OR 511) AND ModeType = ModeSymlink
   \<and> Linkname \<lparr>Typeflag = TypeSymlink, Name = ''link'', Linkname = ''a.txt'', Size = 0, Mode = 511, ModTime = 0\<rparr> = ''a.txt''
   \<and> tw_out (tw (fst (DumpDir None ''/'' fs_links)))
       = [TarHeader \<lparr>Typeflag = TypeReg, Name = ''a.txt'', Linkname = '''', Size = 3, Mode = 420, ModTime = 0\<rparr>,
          TarData [1, 2, 3],
          TarHeader \<lparr>Typeflag = TypeSymlink, Name = ''denied'', Linkname = ''permission denied'', Size = 0, Mode = 511, ModTime = 0\<rparr>,
          TarHeader \<lparr>Typeflag = TypeSymlink, Name = ''link'', Linkname = ''a.txt'', Size = 0, Mode = 511, ModTime = 0\<rparr>,
          TarTrailer]
   \<and> snd (DumpDir None ''/'' fs_badlink)
       = Some (Wrapped ''error dumping dir''
                (Wrapped ''error reading link'' (PathError ''readlink'' ''/broken'' (EOTHER ''input/output error''))))"
proof -
  let ?fi = "\<lparr>fi_name = ''link'', fi_size = 0, fi_mode = ModeSymlink OR 511, fi_modtime = 0\<rparr>"
  let ?h = "\<lparr>Typeflag = TypeSymlink, Name = ''link'', Linkname = ''a.txt'', Size = 0, Mode = 511, ModTime = 0\<rparr>"
  have i: "de_info (link_entry ''link'' (Inr ''a.txt'')) = Inr ?fi" by (simp add: link_entry_def)
  have m: "fi_mode ?fi AND ModeType = ModeSymlink"
    by (simp add: ModeType_def ModeSymlink_def ModeDir_def ModeNamedPipe_def ModeSocket_def
        ModeDevice_def ModeCharDevice_def ModeIrregular_def)
  note t = symlink_target_policy[OF i m, of "''/''" "''link''" None init_state]
  have run: "dumpfn ''/'' ''link'' (Some (link_entry ''link'' (Inr ''a.txt''))) None init_state
               = (init_state\<lparr>tw := (tw init_state)\<lparr>tw_out := [TarHeader ?h]\<rparr>\<rparr>, None)"
    by code_simp
  have o: "tw_out (tw (init_state\<lparr>tw := (tw init_state)\<lparr>tw_out := [TarHeader ?h]\<rparr>\<rparr>))
             = tw_out (tw init_state) @ TarHeader ?h # []"
    by (simp add: init_state_def tar_NewWriter_def)
  from t run o have a: "case de_readlink (link_entry ''link'' (Inr ''a.txt'')) of
                 Inr target \<Rightarrow> Linkname ?h = target
               | Inl en \<Rightarrow> errno_Is en ErrPermission \<and> Linkname ?h = ''permission denied''"
    by blast
  then have a': "Linkname ?h = ''a.txt''" by (simp add: link_entry_def)
  have b: "tw_out (tw (fst (DumpDir None ''/'' fs_links)))
       = [TarHeader \<lparr>Typeflag = TypeReg, Name = ''a.txt'', Linkname = '''', Size = 3, Mode = 420, ModTime = 0\<rparr>,
          TarData [1, 2, 3],
          TarHeader \<lparr>Typeflag = TypeSymlink, Name = ''denied'', Linkname = ''permission denied'', Size = 0, Mode = 511, ModTime = 0\<rparr>,
          TarHeader \<lparr>Typeflag = TypeSymlink, Name = ''link'', Linkname = ''a.txt'', Size = 0, Mode = 511, ModTime = 0\<rparr>,
          TarTrailer]"
    by code_simp
  have r: "Returned ''broken'' (Some (Wrapped ''error reading link'' (PathError ''readlink'' ''/broken'' (EOTHER ''input/output error''))))
            \<in> set (wtrace (fst (DumpDir None ''/'' fs_badlink)))"
    by code_simp
  from t r have c: "snd (DumpDir None ''/'' fs_badlink)
       = Some (Wrapped ''error dumping dir''
                (Wrapped ''error reading link'' (PathError ''readlink'' ''/broken'' (EOTHER ''input/output error''))))"
    by blast
  show ?thesis using i m a' b c by simp
qed

text \<open>
  C3 (as amended). For every node for which the callback emits an archive entry: if the
  node is not a regular file or lacks the world-read bit \<^verbatim>\<open>0004\<close>, the header is
  written with size 0, no content follows it and the file is not opened; if the node
  is a regular file with the world-read bit, the header carries the file's size and
  the copy step is entered (the file is opened), and when the callback then returns
  nil the content written after the header is exactly the bytes read from the file.
  (When opening or copying fails, the header has already been written with its
  size and the walk aborts.)
\<close>

theorem content_policy:
  assumes "dumpfn dumpPath p (Some de) err s = (s', r)"
    and "tw_out (tw s') = tw_out (tw s) @ TarHeader h # rest"
  shows "\<exists>fi. de_info de = Inr fi
       \<and> (\<not> (IsRegular (fi_mode fi) \<and> fileReadable fi) \<longrightarrow>
             Size h = 0 \<and> rest = [] \<and> opened s' = opened s)
       \<and> (IsRegular (fi_mode fi) \<and> fileReadable fi \<longrightarrow>
             Size h = fi_size fi \<and> opened s' = opened s @ [path_Join dumpPath p])
       \<and> (IsRegular (fi_mode fi) \<and> fileReadable fi \<and> r = None \<longrightarrow>
             (\<exists>b. de_open de = Inr (b, None) \<and> rest = (if b = [] then [] else [TarData b])))"
proof -
  have ne: "tw_out (tw s') \<noteq> tw_out (tw s)" using assms(2) by simp
  from dumpfn_emit[OF assms(1) ne] obtain fi link where
    info: "de_info de = Inr fi" and de: "dump_entry dumpPath p de fi link s = (s', r)"
    by auto
  from dump_entry_cases[OF de] ne obtain h0 rest0 where
    h0: "tar_FileInfoHeader fi link = Inr h0"
    and o: "tw_out (tw s') = tw_out (tw s) @ TarHeader (entry_header p fi h0) # rest0"
    and c: "if IsRegular (fi_mode fi) \<and> fileReadable fi
                then opened s' = opened s @ [path_Join dumpPath p]
                     \<and> (rest0 = [] \<or> (\<exists>b. rest0 = [TarData b]))
                     \<and> (r = None \<longrightarrow> (\<exists>b. de_open de = Inr (b, None)
                            \<and> rest0 = (if b = [] then [] else [TarData b])))
                else opened s' = opened s \<and> rest0 = [] \<and> r = None"
    by auto
  have h: "h = entry_header p fi h0" and rest: "rest = rest0" using o assms(2) by simp_all
  show ?thesis
  proof (cases "IsRegular (fi_mode fi) \<and> fileReadable fi")
    case True
    have "Size h = fi_size fi" using entry_header_Size_kept[OF h0, of p] True h by simp
    then show ?thesis using info True c rest by auto
  next
    case False
    have "Size h = 0" using entry_header_Size_elided[OF h0 False, of p] h by simp
    then show ?thesis using info False c rest by auto
  qed
qed

text \<open>The theorem at a regular file of mode \<^verbatim>\<open>0640\<close>, and the archive of a tree holding
  it next to a world-readable file.\<close>

theorem content_policy_witness:
  "dumpfn ''/'' ''private'' (Some (file_entry ''private'' 416 [9, 9])) None init_state
     = (init_state\<lparr>tw := (tw init_state)\<lparr>tw_out :=
          [TarHeader \<lparr>Typeflag = TypeReg, Name = ''private'', Linkname = '''', Size = 0, Mode = 416, ModTime = 0\<rparr>]\<rparr>\<rparr>, None)
   \<and> IsRegular 416 \<and> \<not> fileReadable \<lparr>fi_name = ''private'', fi_size = 2, fi_mode = 416, fi_modtime = 0\<rparr>
   \<and> Size \<lparr>Typeflag = TypeReg, Name = ''private'', Linkname = '''', Size = 0, Mode = 416, ModTime = 0\<rparr> = 0
   \<and> tw_out (tw (fst (DumpDir None ''/'' fs_private)))
       = [TarHeader \<lparr>Typeflag = TypeReg, Name = ''private'', Linkname = '''', Size = 0, Mode = 416, ModTime = 0\<rparr>,
          TarHeader \<lparr>Typeflag = TypeReg, Name = ''public'', Linkname = '''', Size = 3, Mode = 420, ModTime = 0\<rparr>,
          TarData [1, 2, 3],
          TarTrailer]
   \<and> opened (fst (DumpDir None ''/'' fs_private)) = [''/public'']"
proof -
  let ?h = "\<lparr>Typeflag = TypeReg, Name = ''private'', Linkname = '''', Size = 0, Mode = 416, ModTime = 0\<rparr>"
  let ?fi = "\<lparr>fi_name = ''private'', fi_size = 2, fi_mode = 416, fi_modtime = 0\<rparr>"
  let ?s' = "init_state\<lparr>tw := (tw init_state)\<lparr>tw_out := [TarHeader ?h]\<rparr>\<rparr>"
  have run: "dumpfn ''/'' ''private'' (Some (file_entry ''private'' 416 [9, 9])) None init_state = (?s', None)"
    by code_simp
  have o: "tw_out (tw ?s') = tw_out (tw init_state) @ TarHeader ?h # []"
    by (simp add: init_state_def tar_NewWriter_def)
  from content_policy[OF run o] obtain fi where
    fi: "de_info (file_entry ''private'' 416 [9, 9]) = Inr fi"
    and z: "\<not> (IsRegular (fi_mode fi) \<and> fileReadable fi) \<longrightarrow> Size ?h = 0 \<and> [] = [] \<and> opened ?s' = opened init_state"
    by blast
  have fi': "fi = ?fi" using fi by (simp add: file_entry_def)
  have reg: "IsRegular 416"
    by (simp add: IsRegular_def ModeType_def ModeSymlink_def ModeDir_def ModeNamedPipe_def ModeSocket_def
        ModeDevice_def ModeCharDevice_def ModeIrregular_def)
  have nr: "\<not> fileReadable ?fi" by (simp add: fileReadable_def ModePerm_def)
  from z fi' nr have sz: "Size ?h = 0" by simp
  have b: "tw_out (tw (fst (DumpDir None ''/'' fs_private)))
       = [TarHeader \<lparr>Typeflag = TypeReg, Name = ''private'', Linkname = '''', Size = 0, Mode = 416, ModTime = 0\<rparr>,
          TarHeader \<lparr>Typeflag = TypeReg, Name = ''public'', Linkname = '''', Size = 3, Mode = 420, ModTime = 0\<rparr>,
          TarData [1, 2, 3],
          TarTrailer]"
    by code_simp
  have c: "opened (fst (DumpDir None ''/'' fs_private)) = [''/public'']" by code_simp
  show ?thesis using run reg nr sz b c by simp
qed

text \<open>
  C3 as stated fails: \<^verbatim>\<open>a\<close> is a regular file with the world-read bit whose
  \<^verbatim>\<open>os.Open\<close> fails. Its entry is emitted with declared size 3, no content bytes are
  written, and \<^verbatim>\<open>DumpDir\<close> returns the wrapped error.
\<close>

theorem content_not_written_counterexample:
  "tw_out (tw (fst (DumpDir None ''/'' fs_unopenable)))
     = [TarHeader \<lparr>Typeflag = TypeReg, Name = ''a'', Linkname = '''', Size = 3, Mode = 420, ModTime = 0\<rparr>]
   \<and> IsRegular 420
   \<and> fileReadable \<lparr>fi_name = ''a'', fi_size = 3, fi_mode = 420, fi_modtime = 0\<rparr>
   \<and> snd (DumpDir None ''/'' fs_unopenable)
       = Some (Wrapped ''error dumping dir''
                (Wrapped ''error reading file'' (PathError ''open'' ''/a'' EACCES)))"
  by code_simp

section \<open>Claims about the handler\<close>

text \<open>
  C2 (as amended). For every request in which SDK initialisation, secret retrieval and
  storage-client construction succeed (and the two tasks return), the handler sets the
  response header \<^verbatim>\<open>Server-Timing: total;dur=<seconds>\<close> before it writes any status
  or body, whether the pipeline failed or succeeded: the header is in the response as
  sent. (On the three earlier failures the handler answers through \<^verbatim>\<open>http.Error\<close>
  without setting it; see the counterexample.)
\<close>

theorem server_timing_after_pipeline:
  assumes "ycsdk_Build W = None"
    and "getSecret W = (lg, Inr secrets)"
    and "NewS3Client W (map_index secrets ''AWS_ACCESS_KEY'') (map_index secrets ''AWS_SECRET_KEY'') = Inr s3client"
  shows "sent_headers (Handler W) Map.empty ''Server-Timing'' = Some (''total;dur='' @ elapsed W)
       \<and> (\<exists>pre post. Handler W = pre @ HeaderSet ''Server-Timing'' (''total;dur='' @ elapsed W) # post
              \<and> resp_status pre = None \<and> resp_body pre = [])"
proof -
  from getSecret_log[OF assms(2)] obtain l where lg: "lg = [Log l]" by blast
  from pipeline_Return[of W s3client] obtain err putInfo where p: "pipeline W s3client = Return (err, putInfo)"
    by blast
  let ?st = "HeaderSet ''Server-Timing'' (''total;dur='' @ elapsed W)"
  let ?pre = "[Log l, CallNewS3Client (map_index secrets ''AWS_ACCESS_KEY'') (map_index secrets ''AWS_SECRET_KEY'')]"
  obtain post where H: "Handler W = ?pre @ ?st # post"
    and post: "(\<exists>m. post = http_Error m 500) \<or> (\<exists>b k body. post = [WriteHeader 200, CallPresignedGetObject b k 900, Write body])"
    using assms lg p by (cases err) (auto simp: Handler_def Let_def split: sum.splits)
  have "sent_headers (Handler W) Map.empty ''Server-Timing'' = Some (''total;dur='' @ elapsed W)"
    using H post by (auto simp: http_Error_def)
  moreover have "resp_status ?pre = None \<and> resp_body ?pre = []" by simp
  ultimately show ?thesis using H by blast
qed

text \<open>The theorem in a world where every step succeeds.\<close>

theorem server_timing_after_pipeline_witness:
  "ycsdk_Build world_ok = None
   \<and> sent_headers (Handler world_ok) Map.empty ''Server-Timing'' = Some ''total;dur=1.234''
   \<and> resp_status (Handler world_ok) = Some 200"
proof -
  have b: "ycsdk_Build world_ok = None" by (simp add: world_ok_def)
  have g: "getSecret world_ok = ([Log ''got secrets from sec1 version v1''],
              Inr (fold (\<lambda>entry secrets. secrets(fst entry \<mapsto> snd entry))
                     [(''AWS_ACCESS_KEY'', ''AK''), (''AWS_SECRET_KEY'', ''SK'')] Map.empty))"
    by (simp add: getSecret_def world_ok_def)
  have n: "NewS3Client world_ok
             (map_index (fold (\<lambda>entry secrets. secrets(fst entry \<mapsto> snd entry))
                     [(''AWS_ACCESS_KEY'', ''AK''), (''AWS_SECRET_KEY'', ''SK'')] Map.empty) ''AWS_ACCESS_KEY'')
             (map_index (fold (\<lambda>entry secrets. secrets(fst entry \<mapsto> snd entry))
                     [(''AWS_ACCESS_KEY'', ''AK''), (''AWS_SECRET_KEY'', ''SK'')] Map.empty) ''AWS_SECRET_KEY'')
           = Inr \<lparr>cl_endpoint = ''storage.yandexcloud.net'',
                  cl_opts = \<lparr>Creds = (''AK'', ''SK'', ''''), Secure = True, Region = ''ru-central1''\<rparr>\<rparr>"
    by (simp add: NewS3Client_def world_ok_def map_index_def)
  from server_timing_after_pipeline[OF b g n]
  have a: "sent_headers (Handler world_ok) Map.empty ''Server-Timing'' = Some (''total;dur='' @ elapsed world_ok)"
    by (rule conjunct1)
  have c: "resp_status (Handler world_ok) = Some 200" by code_simp
  show ?thesis using a b c by (simp add: world_ok_def)
qed

text \<open>
  C2 as stated fails: when SDK initialisation fails, when secret retrieval fails, and
  when the storage client cannot be constructed, the response (status 500) carries no
  \<^verbatim>\<open>Server-Timing\<close> header.
\<close>

theorem server_timing_missing_counterexample:
  "sent_headers (Handler (world_ok\<lparr>ycsdk_Build := Some (External ''no metadata service'')\<rparr>)) Map.empty ''Server-Timing'' = None
   \<and> resp_status (Handler (world_ok\<lparr>ycsdk_Build := Some (External ''no metadata service'')\<rparr>)) = Some 500
   \<and> resp_body (Handler (world_ok\<lparr>ycsdk_Build := Some (External ''no metadata service'')\<rparr>)) = ''can't initalize sdk'' @ newline
   \<and> sent_headers (Handler (world_ok\<lparr>lockbox_Get := (\<lambda>ident. Inl (External ''denied''))\<rparr>)) Map.empty ''Server-Timing'' = None
   \<and> resp_body (Handler (world_ok\<lparr>lockbox_Get := (\<lambda>ident. Inl (External ''denied''))\<rparr>)) = ''can't get secrets'' @ newline
   \<and> sent_headers (Handler (world_ok\<lparr>minio_New := (\<lambda>endpoint opts. Some (External ''bad endpoint''))\<rparr>)) Map.empty ''Server-Timing'' = None
   \<and> resp_body (Handler (world_ok\<lparr>minio_New := (\<lambda>endpoint opts. Some (External ''bad endpoint''))\<rparr>)) = ''s3 unavailable'' @ newline"
  by (simp add: Handler_def world_ok_def getSecret_def NewS3Client_def http_Error_def map_index_def)

text \<open>
  C7. When the pipeline succeeds, the handler writes status 200 and only then asks for
  the presigned URL; if minting fails, the body is
  \<^verbatim>\<open>error generating presigned url: \<close> followed by the error's message (and no URL);
  if it succeeds, the body is the presigned URL, written as one line.
\<close>

theorem presign_after_status_ok:
  assumes "ycsdk_Build W = None"
    and "getSecret W = (lg, Inr secrets)"
    and "NewS3Client W (map_index secrets ''AWS_ACCESS_KEY'') (map_index secrets ''AWS_SECRET_KEY'') = Inr s3client"
    and "pipeline W s3client = Return (None, putInfo)"
  shows "Handler W =
           lg @ [CallNewS3Client (map_index secrets ''AWS_ACCESS_KEY'') (map_index secrets ''AWS_SECRET_KEY''),
                 HeaderSet ''Server-Timing'' (''total;dur='' @ elapsed W),
                 WriteHeader 200,
                 CallPresignedGetObject (Bucket putInfo) (Key putInfo) 900,
                 Write (case PresignedGetObject W s3client (Bucket putInfo) (Key putInfo) 900 of
                          Inl e \<Rightarrow> ''error generating presigned url: '' @ Error e
                        | Inr presigned \<Rightarrow> presigned @ newline)]
       \<and> resp_status (Handler W) = Some 200
       \<and> resp_body (Handler W) =
           (case PresignedGetObject W s3client (Bucket putInfo) (Key putInfo) 900 of
              Inl e \<Rightarrow> ''error generating presigned url: '' @ Error e
            | Inr presigned \<Rightarrow> presigned @ newline)"
proof -
  from getSecret_log[OF assms(2)] obtain l where lg: "lg = [Log l]" by blast
  have H: "Handler W =
           lg @ [CallNewS3Client (map_index secrets ''AWS_ACCESS_KEY'') (map_index secrets ''AWS_SECRET_KEY''),
                 HeaderSet ''Server-Timing'' (''total;dur='' @ elapsed W),
                 WriteHeader 200,
                 CallPresignedGetObject (Bucket putInfo) (Key putInfo) 900,
                 Write (case PresignedGetObject W s3client (Bucket putInfo) (Key putInfo) 900 of
                          Inl e \<Rightarrow> ''error generating presigned url: '' @ Error e
                        | Inr presigned \<Rightarrow> presigned @ newline)]"
    using assms by (simp add: Handler_def Let_def split: sum.splits)
  show ?thesis unfolding H lg by simp
qed

text \<open>The theorem in a world where minting fails, and in one where it succeeds.\<close>

theorem presign_after_status_ok_witness:
  "pipeline (world_ok\<lparr>PresignedGetObject := (\<lambda>c bucket k ttl. Inl (External ''context canceled''))\<rparr>)
       \<lparr>cl_endpoint = ''storage.yandexcloud.net'',
        cl_opts = \<lparr>Creds = (''AK'', ''SK'', ''''), Secure = True, Region = ''ru-central1''\<rparr>\<rparr>
     = Return (None, \<lparr>Bucket = ''backups'', Key = ''go/2024-01-01T00:00:00Z/dump.tar.gz''\<rparr>)
   \<and> resp_status (Handler (world_ok\<lparr>PresignedGetObject := (\<lambda>c bucket k ttl. Inl (External ''context canceled''))\<rparr>)) = Some 200
   \<and> resp_body (Handler (world_ok\<lparr>PresignedGetObject := (\<lambda>c bucket k ttl. Inl (External ''context canceled''))\<rparr>))
       = ''error generating presigned url: context canceled''
   \<and> resp_body (Handler world_ok)
       = ''https://storage.yandexcloud.net/backups/go/2024-01-01T00:00:00Z/dump.tar.gz'' @ newline"
proof -
  let ?W = "world_ok\<lparr>PresignedGetObject := (\<lambda>c bucket k ttl. Inl (External ''context canceled''))\<rparr>"
  let ?secrets = "fold (\<lambda>entry secrets. secrets(fst entry \<mapsto> snd entry))
                     [(''AWS_ACCESS_KEY'', ''AK''), (''AWS_SECRET_KEY'', ''SK'')] Map.empty"
  let ?c = "\<lparr>cl_endpoint = ''storage.yandexcloud.net'',
             cl_opts = \<lparr>Creds = (''AK'', ''SK'', ''''), Secure = True, Region = ''ru-central1''\<rparr>\<rparr>"
  let ?info = "\<lparr>Bucket = ''backups'', Key = ''go/2024-01-01T00:00:00Z/dump.tar.gz''\<rparr>"
  have d: "snd (DumpDir None ''/'' fs_links) = None" by code_simp
  have b: "ycsdk_Build ?W = None" and b0: "ycsdk_Build world_ok = None" by (simp_all add: world_ok_def)
  have g: "getSecret ?W = ([Log ''got secrets from sec1 version v1''], Inr ?secrets)"
    and g0: "getSecret world_ok = ([Log ''got secrets from sec1 version v1''], Inr ?secrets)"
    by (simp_all add: getSecret_def world_ok_def)
  have n: "NewS3Client ?W (map_index ?secrets ''AWS_ACCESS_KEY'') (map_index ?secrets ''AWS_SECRET_KEY'') = Inr ?c"
    and n0: "NewS3Client world_ok (map_index ?secrets ''AWS_ACCESS_KEY'') (map_index ?secrets ''AWS_SECRET_KEY'') = Inr ?c"
    by (simp_all add: NewS3Client_def world_ok_def map_index_def)
  have p: "pipeline ?W ?c = Return (None, ?info)" and p0: "pipeline world_ok ?c = Return (None, ?info)"
    using d by (simp_all add: pipeline_eq world_ok_def errg_Wait_def)
  note t = presign_after_status_ok[OF b g n p]
  note t0 = presign_after_status_ok[OF b0 g0 n0 p0]
  from t have s: "resp_status (Handler ?W) = Some 200" by blast
  from t have bd: "resp_body (Handler ?W) =
           (case PresignedGetObject ?W ?c (Bucket ?info) (Key ?info) 900 of
              Inl e \<Rightarrow> ''error generating presigned url: '' @ Error e
            | Inr presigned \<Rightarrow> presigned @ newline)" by blast
  from t0 have bd0: "resp_body (Handler world_ok) =
           (case PresignedGetObject world_ok ?c (Bucket ?info) (Key ?info) 900 of
              Inl e \<Rightarrow> ''error generating presigned url: '' @ Error e
            | Inr presigned \<Rightarrow> presigned @ newline)" by blast
  show ?thesis using p s bd bd0 by (simp add: world_ok_def)
qed



text \<open>
  C10. The error of \<^verbatim>\<open>gzip.NewWriterLevel(pipeW, gzip.BestSpeed)\<close> that the producer
  task drops is always nil and the writer it returns is never nil, because
  \<^verbatim>\<open>gzip.BestSpeed\<close> lies within the valid levels; so the producer task never panics
  on a nil writer.
\<close>

theorem best_speed_writer_never_nil:
  "gzip_NewWriterLevel BestSpeed = (Some \<lparr>gz_level = 1, gz_closed = False\<rparr>, None)
   \<and> producer_task fsys pipeW \<noteq> Panic"
  by (simp add: producer_task_def gzip_NewWriterLevel_def BestSpeed_def HuffmanOnly_def
      BestCompression_def split: prod.splits option.splits)

text \<open>The theorem for the producer task on a small tree.\<close>

theorem best_speed_writer_never_nil_witness:
  "fst (gzip_NewWriterLevel BestSpeed) \<noteq> None \<and> snd (gzip_NewWriterLevel BestSpeed) = None
   \<and> producer_task fs_links io_Pipe \<noteq> Panic"
  using best_speed_writer_never_nil[of fs_links io_Pipe] by simp




end
